theory Spec2Isabelle
  imports Main
begin

section \<open>Data model of internal/cmd/db.go\<close>

text \<open>
  The commands of \<^verbatim>\<open>db.go\<close> talk to a remote control plane, to a geolocation probe
  and to the local settings store. Every answer those collaborators can give is a
  field of the record \<open>env\<close>; every effect a command has on them is appended to a log
  kept beside the settings store. A command is a function from the environment and
  the world before it to an outcome and the world after it.
\<close>

text \<open>\<^verbatim>\<open>turso.Database\<close>: the fields db.go reads.\<close>

record Database =
  db_ID :: string
  db_Name :: string
  db_Type :: string
  db_Hostname :: string
  db_Regions :: "string list"

text \<open>\<^verbatim>\<open>settings.DatabaseSettings\<close>, as the struct literals of createCmd and replicateCmd fill it.\<close>

record DatabaseSettings =
  ds_Name :: string
  ds_Host :: string
  ds_Username :: string
  ds_Password :: string

text \<open>The result of \<^verbatim>\<open>client.Databases.Create\<close>: createCmd reads
  \<^verbatim>\<open>res.Database\<close>, \<^verbatim>\<open>res.Username\<close> and \<^verbatim>\<open>res.Password\<close>.\<close>

record CreateDatabaseResponse =
  cr_Database :: Database
  cr_Username :: string
  cr_Password :: string

text \<open>
  The local settings file: the bearer token, the map from remote database id to
  connection settings, and the name cache slot (\<open>None\<close> is Go's \<^verbatim>\<open>nil\<close> slice: a miss).
\<close>

record Settings =
  token :: string
  databases :: "string \<rightharpoonup> DatabaseSettings"
  db_names_cache :: "string list option"

text \<open>
  What \<^verbatim>\<open>json.Unmarshal\<close> stores into an \<^verbatim>\<open>interface{}\<close>: nil, bool, float64, string,
  \<^verbatim>\<open>[]interface{}\<close> or \<^verbatim>\<open>map[string]interface{}\<close>. db.go never reads a number, so its
  payload is kept as an integer.
\<close>

datatype jvalue =
    JNull
  | JBool bool
  | JNumber int
  | JString string
  | JArray "jvalue list"
  | JObject "(string \<times> jvalue) list"

text \<open>The outcome of the geolocation probe, as probeClosestRegion distinguishes it:
  \<^verbatim>\<open>http.Get\<close> failed, the body did not decode into \<^verbatim>\<open>Region\<close>, or it decoded and
  \<^verbatim>\<open>reg.Server\<close> is the string given.\<close>

datatype probe_outcome = GetFailed string | DecodeFailed string | Decoded string

text \<open>The body of a control-plane response, after \<^verbatim>\<open>io.ReadAll\<close> and \<^verbatim>\<open>json.Unmarshal\<close>.\<close>

datatype body_outcome = ReadFailed string | UnmarshalFailed string | Unmarshalled jvalue

record http_request =
  req_url :: string
  req_body :: string
  req_authorization :: string

record http_response =
  StatusCode :: int
  Status :: string
  Body :: body_outcome

text \<open>Every effect on a collaborator, in the order the command performs it.\<close>

datatype event =
    GetRegionsCall
  | ProbeGet
  | Printed string
  | DatabasesList
  | DatabasesCreate string string string
  | InstancesCreate string string string string
  | HttpPost http_request
  | AddDatabaseWrite string DatabaseSettings
  | InvalidateCacheWrite
  | SetCacheWrite "string list"
  | PromptShown
  | DestroyDatabaseCall string
  | DestroyRegionCall string string
  | DestroyInstanceCall string string

record world =
  config :: Settings
  log :: "event list"

text \<open>The answers of the collaborators. An error is the message of the Go error.\<close>

record env =
  read_settings_err :: "string option"
  regions_resp :: "string + string list"
  probe_resp :: probe_outcome
  list_resp :: "string + Database list"
  codename_resp :: "string + string"
  db_create_resp :: "string \<Rightarrow> string \<Rightarrow> string \<Rightarrow> string + CreateDatabaseResponse"
  inst_create_resp :: "string \<Rightarrow> string \<Rightarrow> string \<Rightarrow> string \<Rightarrow> string option"
  api_baseurl :: string
  new_request_err :: "string \<Rightarrow> string option"
  http_do :: "http_request \<Rightarrow> string + http_response"
  prompt_resp :: "string + bool"
  destroy_db_resp :: "string \<Rightarrow> string option"
  destroy_region_resp :: "string \<Rightarrow> string \<Rightarrow> string option"
  destroy_instance_resp :: "string \<Rightarrow> string \<Rightarrow> string option"

text \<open>
  The errors a command returns, one constructor for each \<^verbatim>\<open>return\<close> of an error in
  db.go, carrying what the message is formatted from.
\<close>

datatype cmd_error =
    SettingsUnreadable string
  | CodenameFailed string
  | RegionNotValid string
  | CouldNotCreateDatabase string string
  | InstanceCreateFailed string string
  | MissingDatabaseName
  | MissingRegionId
  | InvalidRegionId
  | PleaseLogin
  | NewRequestFailed string
  | TransportFailed string
  | FailedToCreateDatabase string
  | BodyReadFailed string
  | JsonInvalid string
  | PromptFailed string
  | RemoteFailed string

text \<open>Run-time panics of the Go code: a nil pointer dereference, and a single-value
  type assertion on a value of another dynamic type.\<close>

datatype panic = NilDereference | InterfaceConversion

datatype 'a outcome = Ok 'a | Error cmd_error | Panic panic

text \<open>The message of each error. \<^verbatim>\<open>emph\<close> only adds colour codes and is left out.\<close>

fun error_text :: "cmd_error \<Rightarrow> string" where
  "error_text (SettingsUnreadable e) = e"
| "error_text (CodenameFailed e) = e"
| "error_text (RegionNotValid r) = ''region '' @ [CHR 0x27] @ r @ [CHR 0x27] @ '' is not a valid one''"
| "error_text (CouldNotCreateDatabase n e) = ''could not create database '' @ n @ '': '' @ e"
| "error_text (InstanceCreateFailed n e) = ''failed to create instance for database '' @ n @ '': '' @ e"
| "error_text MissingDatabaseName = ''You must specify a database name to replicate it.''"
| "error_text MissingRegionId = ''You must specify a database region ID to replicate it.''"
| "error_text InvalidRegionId = ''Invalid region ID. Run turso db regions to see a list of valid region IDs.''"
| "error_text PleaseLogin = ''please login with turso auth login''"
| "error_text (NewRequestFailed e) = e"
| "error_text (TransportFailed e) = e"
| "error_text (FailedToCreateDatabase s) = ''Failed to create database: '' @ s"
| "error_text (BodyReadFailed e) = e"
| "error_text (JsonInvalid e) = e"
| "error_text (PromptFailed e) = ''could not get prompt confirmed by user: '' @ e"
| "error_text (RemoteFailed e) = e"

definition emit :: "event \<Rightarrow> world \<Rightarrow> world" where
  "emit ev w = w\<lparr>log := log w @ [ev]\<rparr>"

section \<open>Region catalog and region probe\<close>

text \<open>getRegionIds: the ids of \<^verbatim>\<open>turso.GetRegions\<close>, or the empty slice when it fails.\<close>

definition getRegionIds :: "env \<Rightarrow> world \<Rightarrow> string list \<times> world" where
  "getRegionIds e w =
     (case regions_resp e of
        Inl err \<Rightarrow> ([], emit GetRegionsCall w)
      | Inr ids \<Rightarrow> (ids, emit GetRegionsCall w))"

text \<open>The loop of isValidRegion over the region ids.\<close>

fun region_in :: "string \<Rightarrow> string list \<Rightarrow> bool" where
  "region_in region [] = False"
| "region_in region (regionId # rest) = (if region = regionId then True else region_in region rest)"

definition isValidRegion :: "env \<Rightarrow> string \<Rightarrow> world \<Rightarrow> bool \<times> world" where
  "isValidRegion e region w =
     (case getRegionIds e w of
        (regionIds, w1) \<Rightarrow>
          if length regionIds = 0 then (True, w1) else (region_in region regionIds, w1))"

definition FallbackRegionId :: string where
  "FallbackRegionId = ''ams''"

definition FallbackWarning :: string where
  "FallbackWarning =
     ''Warning: we could not determine the deployment region closest to your physical location.'' @ [CHR 0x0A] @
     ''The region is defaulting to Amsterdam (ams). Consider specifying a region to select a better option using'' @
     [CHR 0x0A, CHR 0x0A, CHR 0x09] @ ''turso db create --region [region].'' @ [CHR 0x0A, CHR 0x0A] @
     ''Run turso db regions for a list of supported regions.'' @ [CHR 0x0A]"

definition probeClosestRegion :: "env \<Rightarrow> world \<Rightarrow> string \<times> world" where
  "probeClosestRegion e w =
     (case probe_resp e of
        GetFailed err \<Rightarrow> (FallbackRegionId, emit (Printed FallbackWarning) (emit ProbeGet w))
      | DecodeFailed err \<Rightarrow> (FallbackRegionId, emit ProbeGet w)
      | Decoded server \<Rightarrow>
          (case isValidRegion e server (emit ProbeGet w) of
             (valid, w1) \<Rightarrow> if valid then (server, w1) else (FallbackRegionId, w1)))"

section \<open>The local settings store\<close>

text \<open>
  The package \<^verbatim>\<open>internal/settings\<close> is not among the sources. The spec gives it as a
  key-value persistence boundary: a token, per-database connection settings keyed by
  the remote id, and a name cache slot.
\<close>

text \<open>Modelled from the spec: \<^verbatim>\<open>settings.ReadSettings\<close> (package internal/settings, not among
  the sources) hands out the settings store, or fails when the store is unavailable.\<close>

definition ReadSettings :: "env \<Rightarrow> world \<Rightarrow> string + Settings" where
  "ReadSettings e w = (case read_settings_err e of Some err \<Rightarrow> Inl err | None \<Rightarrow> Inr (config w))"

text \<open>Modelled from the spec: \<^verbatim>\<open>GetToken\<close> (package internal/settings) reads the stored
  bearer token.\<close>

definition GetToken :: "Settings \<Rightarrow> string" where
  "GetToken s = token s"

text \<open>Modelled from the spec: \<^verbatim>\<open>GetDbNamesCache\<close> (package internal/settings) is the
  name cache's \<open>Get\<close>: it returns the cached snapshot if present, else absent.\<close>

definition GetDbNamesCache :: "Settings \<Rightarrow> string list option" where
  "GetDbNamesCache s = db_names_cache s"

text \<open>Modelled from the spec: \<^verbatim>\<open>SetDbNamesCache\<close> (package internal/settings) is the
  name cache's \<open>Set\<close>: it overwrites the snapshot.\<close>

definition SetDbNamesCache :: "string list \<Rightarrow> world \<Rightarrow> world" where
  "SetDbNamesCache names w =
     emit (SetCacheWrite names) (w\<lparr>config := (config w)\<lparr>db_names_cache := Some names\<rparr>\<rparr>)"

text \<open>Modelled from the spec: \<^verbatim>\<open>InvalidateDbNamesCache\<close> (package internal/settings) is
  the name cache's \<open>Invalidate\<close>: it clears the snapshot.\<close>

definition InvalidateDbNamesCache :: "world \<Rightarrow> world" where
  "InvalidateDbNamesCache w =
     emit InvalidateCacheWrite (w\<lparr>config := (config w)\<lparr>db_names_cache := None\<rparr>\<rparr>)"

text \<open>Modelled from the spec: \<^verbatim>\<open>AddDatabase\<close> (package internal/settings) persists the
  connection settings keyed by the remote id, creating or overwriting the entry.\<close>

definition AddDatabase :: "string \<Rightarrow> DatabaseSettings \<Rightarrow> world \<Rightarrow> world" where
  "AddDatabase dbid ds w =
     emit (AddDatabaseWrite dbid ds)
       (w\<lparr>config := (config w)\<lparr>databases := (databases (config w))(dbid \<mapsto> ds)\<rparr>\<rparr>)"

text \<open>Modelled from the spec: \<^verbatim>\<open>GetDatabaseSettings\<close> (package internal/settings) fetches
  the settings keyed by the remote id. db.go holds its result in a pointer variable;
  the pointer is \<^verbatim>\<open>nil\<close> (here \<open>None\<close>) when the map has no entry for the id.\<close>

definition GetDatabaseSettings :: "Settings \<Rightarrow> string \<Rightarrow> DatabaseSettings option" where
  "GetDatabaseSettings s dbid = databases s dbid"

section \<open>Database catalog and name cache\<close>

definition getDatabases :: "env \<Rightarrow> world \<Rightarrow> (string + Database list) \<times> world" where
  "getDatabases e w = (list_resp e, emit DatabasesList w)"

fun extractDatabaseNames :: "Database list \<Rightarrow> string list" where
  "extractDatabaseNames [] = []"
| "extractDatabaseNames (database # rest) =
     (if db_Type database = ''primary''
      then db_Name database # extractDatabaseNames rest
      else extractDatabaseNames rest)"

definition fetchDatabaseNames :: "env \<Rightarrow> world \<Rightarrow> string list \<times> world" where
  "fetchDatabaseNames e w =
     (case getDatabases e w of
        (Inl err, w1) \<Rightarrow> ([], w1)
      | (Inr dbs, w1) \<Rightarrow> (extractDatabaseNames dbs, w1))"

text \<open>The loop of getDatabase: the first database with the name.\<close>

fun find_database :: "string \<Rightarrow> Database list \<Rightarrow> Database option" where
  "find_database name [] = None"
| "find_database name (database # rest) =
     (if db_Name database = name then Some database else find_database name rest)"

definition getDatabase :: "env \<Rightarrow> string \<Rightarrow> world \<Rightarrow> (string + Database) \<times> world" where
  "getDatabase e name w =
     (case getDatabases e w of
        (Inl err, w1) \<Rightarrow> (Inl err, w1)
      | (Inr dbs, w1) \<Rightarrow>
          (case find_database name dbs of
             Some database \<Rightarrow> (Inr database, w1)
           | None \<Rightarrow> (Inl (''database with name '' @ name @ '' not found''), w1)))"

definition getDatabaseNames :: "env \<Rightarrow> world \<Rightarrow> string list \<times> world" where
  "getDatabaseNames e w =
     (case ReadSettings e w of
        Inl err \<Rightarrow> fetchDatabaseNames e w
      | Inr settings \<Rightarrow>
          (case GetDbNamesCache settings of
             Some cached_names \<Rightarrow> (cached_names, w)
           | None \<Rightarrow>
               (case fetchDatabaseNames e w of
                  (names, w1) \<Rightarrow> (names, SetDbNamesCache names w1))))"

text \<open>listCmd, without the table it prints: it writes the cache only after the
  listing succeeded.\<close>

definition listCmd :: "env \<Rightarrow> world \<Rightarrow> unit outcome \<times> world" where
  "listCmd e w =
     (case ReadSettings e w of
        Inl err \<Rightarrow> (Error (SettingsUnreadable err), w)
      | Inr settings \<Rightarrow>
          (case getDatabases e w of
             (Inl err, w1) \<Rightarrow> (Error (RemoteFailed err), w1)
           | (Inr dbs, w1) \<Rightarrow> (Ok (), SetDbNamesCache (extractDatabaseNames dbs) w1)))"

definition getAccessToken :: "env \<Rightarrow> world \<Rightarrow> string + string" where
  "getAccessToken e w =
     (case ReadSettings e w of
        Inl err \<Rightarrow> Inl ''could not read local settings''
      | Inr settings \<Rightarrow>
          (if GetToken settings = [] then Inl ''user not logged in'' else Inr (GetToken settings)))"

definition getHost :: "env \<Rightarrow> string" where
  "getHost e = (if api_baseurl e = [] then ''https://api.chiseledge.com'' else api_baseurl e)"

definition image_tag :: "bool \<Rightarrow> string" where
  "image_tag canary = (if canary then ''canary'' else ''latest'')"

section \<open>createCmd\<close>

text \<open>The name: generated when no argument or an empty one is given.\<close>

definition create_name :: "env \<Rightarrow> string list \<Rightarrow> string + string" where
  "create_name e args =
     (case args of
        [] \<Rightarrow> codename_resp e
      | arg0 # _ \<Rightarrow> if arg0 = [] then codename_resp e else Inr arg0)"

text \<open>
  Lines 143 to 164 of the RunE of createCmd: the settings are read, the name and the
  region resolved. \<open>region_flag\<close> is the flag \<^verbatim>\<open>--region\<close>. The result is the name and
  the region.
\<close>

definition create_prepare ::
  "env \<Rightarrow> string \<Rightarrow> string list \<Rightarrow> world \<Rightarrow> (string \<times> string) outcome \<times> world" where
  "create_prepare e region_flag args w =
     (case ReadSettings e w of
        Inl err \<Rightarrow> (Error (SettingsUnreadable err), w)
      | Inr cfg \<Rightarrow>
     (case create_name e args of
        Inl err \<Rightarrow> (Error (CodenameFailed err), w)
      | Inr name \<Rightarrow>
     if region_flag \<noteq> []
     then (case isValidRegion e region_flag w of
             (valid, w1) \<Rightarrow>
               if \<not> valid then (Error (RegionNotValid region_flag), w1)
               else (Ok (name, region_flag), w1))
     else (case probeClosestRegion e w of
             (region, w1) \<Rightarrow> (Ok (name, region), w1))))"

text \<open>
  Lines 165 to 201: the database is created, then its instance, then the settings are
  stored and the name cache invalidated. \<open>canary\<close> is the flag. The loading bar and the
  lines printed on success are presentation and are left out.
\<close>

definition create_provision ::
  "env \<Rightarrow> bool \<Rightarrow> string \<Rightarrow> string \<Rightarrow> world \<Rightarrow> unit outcome \<times> world" where
  "create_provision e canary name region w =
     (case db_create_resp e name region (image_tag canary) of
        Inl err \<Rightarrow>
          (Error (CouldNotCreateDatabase name err),
           emit (DatabasesCreate name region (image_tag canary)) w)
      | Inr res \<Rightarrow>
     (case inst_create_resp e name (cr_Password res) region (image_tag canary) of
        Some err \<Rightarrow>
          (Error (InstanceCreateFailed name err),
           emit (InstancesCreate name (cr_Password res) region (image_tag canary))
             (emit (DatabasesCreate name region (image_tag canary)) w))
      | None \<Rightarrow>
          (Ok (),
           InvalidateDbNamesCache
             (AddDatabase (db_ID (cr_Database res))
                \<lparr>ds_Name = db_Name (cr_Database res),
                 ds_Host = db_Hostname (cr_Database res),
                 ds_Username = cr_Username res,
                 ds_Password = cr_Password res\<rparr>
                (emit (InstancesCreate name (cr_Password res) region (image_tag canary))
                   (emit (DatabasesCreate name region (image_tag canary)) w))))))"

definition createCmd :: "env \<Rightarrow> string \<Rightarrow> bool \<Rightarrow> string list \<Rightarrow> world \<Rightarrow> unit outcome \<times> world" where
  "createCmd e region_flag canary args w =
     (case create_prepare e region_flag args w of
        (Error er, w1) \<Rightarrow> (Error er, w1)
      | (Panic p, w1) \<Rightarrow> (Panic p, w1)
      | (Ok (name, region), w1) \<Rightarrow> create_provision e canary name region w1)"

section \<open>destroyCmd\<close>

text \<open>Modelled from the spec: destroyDatabase is not among the sources. The spec gives
  it as one remote call that removes the whole database, whose error propagates, and
  that updates neither the name cache nor the local settings.\<close>

definition destroyDatabase :: "env \<Rightarrow> string \<Rightarrow> world \<Rightarrow> unit outcome \<times> world" where
  "destroyDatabase e name w =
     (case destroy_db_resp e name of
        Some err \<Rightarrow> (Error (RemoteFailed err), emit (DestroyDatabaseCall name) w)
      | None \<Rightarrow> (Ok (), emit (DestroyDatabaseCall name) w))"

text \<open>Modelled from the spec: destroyDatabaseRegion is not among the sources. The spec
  gives it as one remote call that removes the footprint in one region, whose error
  propagates, and that updates neither the name cache nor the local settings.\<close>

definition destroyDatabaseRegion :: "env \<Rightarrow> string \<Rightarrow> string \<Rightarrow> world \<Rightarrow> unit outcome \<times> world" where
  "destroyDatabaseRegion e name region w =
     (case destroy_region_resp e name region of
        Some err \<Rightarrow> (Error (RemoteFailed err), emit (DestroyRegionCall name region) w)
      | None \<Rightarrow> (Ok (), emit (DestroyRegionCall name region) w))"

text \<open>Modelled from the spec: destroyDatabaseInstance is not among the sources. The
  spec gives it as one remote call that removes a single named instance, whose error
  propagates, and that updates neither the name cache nor the local settings.\<close>

definition destroyDatabaseInstance :: "env \<Rightarrow> string \<Rightarrow> string \<Rightarrow> world \<Rightarrow> unit outcome \<times> world" where
  "destroyDatabaseInstance e name inst w =
     (case destroy_instance_resp e name inst of
        Some err \<Rightarrow> (Error (RemoteFailed err), emit (DestroyInstanceCall name inst) w)
      | None \<Rightarrow> (Ok (), emit (DestroyInstanceCall name inst) w))"

text \<open>The RunE of destroyCmd; \<open>name\<close> is its one argument, the other three are the flags.\<close>

definition destroyCmd :: "env \<Rightarrow> string \<Rightarrow> string \<Rightarrow> bool \<Rightarrow> string \<Rightarrow> world \<Rightarrow> unit outcome \<times> world" where
  "destroyCmd e instanceFlag regionFlag yesFlag name w =
     (if instanceFlag \<noteq> [] then destroyDatabaseInstance e name instanceFlag w
      else if regionFlag \<noteq> [] then destroyDatabaseRegion e name regionFlag w
      else if yesFlag then destroyDatabase e name w
      else
        (case prompt_resp e of
           Inl err \<Rightarrow> (Error (PromptFailed err), emit PromptShown w)
         | Inr ok \<Rightarrow>
             if \<not> ok then (Ok (), emit PromptShown w)
             else destroyDatabase e name (emit PromptShown w)))"

section \<open>replicateCmd\<close>

text \<open>Lines 398 to 401: the endpoint, chosen by the type of the source database.\<close>

definition replicate_url :: "string \<Rightarrow> string \<Rightarrow> Database \<Rightarrow> string" where
  "replicate_url host name original =
     (if db_Type original = ''logical''
      then host @ ''/v2/databases/'' @ name @ ''/instances''
      else host @ ''/v1/databases'')"

text \<open>Line 407: the request body, \<^verbatim>\<open>fmt.Sprintf\<close> with four \<^verbatim>\<open>%s\<close> verbs.\<close>

definition createDbReq :: "string \<Rightarrow> string \<Rightarrow> string \<Rightarrow> string \<Rightarrow> string" where
  \<open>createDbReq name region img password =
     ''{"name": "'' @ name @ ''", "region": "'' @ region @ ''", "image": "'' @ img @
     ''", "type": "replica", "password": "'' @ password @ ''"}''\<close>

text \<open>
  Go's map index and single-value type assertions on the decoded response. The list of
  a \<open>JObject\<close> stands for the decoded map: the entry of a key is its first pair. A
  key the map does not have yields the nil interface; an assertion on a value of
  another dynamic type (nil included) panics.
\<close>

definition index_map :: "(string \<times> jvalue) list \<Rightarrow> string \<Rightarrow> jvalue" where
  "index_map m k = (case map_of m k of None \<Rightarrow> JNull | Some v \<Rightarrow> v)"

fun assert_map :: "jvalue \<Rightarrow> (string \<times> jvalue) list outcome" where
  "assert_map (JObject m) = Ok m"
| "assert_map _ = Panic InterfaceConversion"

fun assert_string :: "jvalue \<Rightarrow> string outcome" where
  "assert_string (JString s) = Ok s"
| "assert_string _ = Panic InterfaceConversion"

text \<open>Sequencing: a panic or an error ends the evaluation.\<close>

fun and_then :: "'a outcome \<Rightarrow> ('a \<Rightarrow> 'b outcome) \<Rightarrow> 'b outcome" where
  "and_then (Ok x) f = f x"
| "and_then (Error er) f = Error er"
| "and_then (Panic p) f = Panic p"

text \<open>
  Lines 438 to 459: the new settings key and the new settings, read from the decoded
  response \<open>result\<close> by type assertions, in the order the source evaluates them.
\<close>

definition response_settings :: "Database \<Rightarrow> jvalue \<Rightarrow> (string \<times> DatabaseSettings) outcome" where
  "response_settings original result =
     and_then
       (and_then (assert_map result)
          (\<lambda>obj. assert_map
             (index_map obj (if db_Type original = ''logical'' then ''instance'' else ''database''))))
       (\<lambda>m.
     and_then (and_then (assert_map result) (\<lambda>obj. assert_string (index_map obj ''username'')))
       (\<lambda>username.
     and_then (and_then (assert_map result) (\<lambda>obj. assert_string (index_map obj ''password'')))
       (\<lambda>password.
     and_then
       (if db_Type original = ''logical''
        then and_then (assert_string (index_map m ''uuid''))
               (\<lambda>dbId. Ok (dbId, db_Hostname original))
        else and_then (assert_string (index_map m ''DbId''))
               (\<lambda>dbId. and_then (assert_string (index_map m ''Hostname''))
                  (\<lambda>dbHost. Ok (dbId, dbHost))))
       (\<lambda>(dbId, dbHost).
     Ok (dbId, \<lparr>ds_Name = [], ds_Host = dbHost, ds_Username = username, ds_Password = password\<rparr>)))))"

text \<open>
  Lines 365 to 412 of the RunE of replicateCmd: everything up to the request that is
  about to be sent. \<open>name\<close> and \<open>region\<close> are the two arguments, \<open>canary\<close> is the flag.
  The result is the source database and the request.
\<close>

definition replicate_prepare ::
  "env \<Rightarrow> bool \<Rightarrow> string \<Rightarrow> string \<Rightarrow> world \<Rightarrow> (Database \<times> http_request) outcome \<times> world" where
  "replicate_prepare e canary name region w =
     (case ReadSettings e w of
        Inl err \<Rightarrow> (Error (SettingsUnreadable err), w)
      | Inr cfg \<Rightarrow>
     if name = [] then (Error MissingDatabaseName, w)
     else if region = [] then (Error MissingRegionId, w)
     else
     (case isValidRegion e region w of
        (valid, w1) \<Rightarrow>
     if \<not> valid then (Error InvalidRegionId, w1)
     else
     (case getAccessToken e w1 of
        Inl err \<Rightarrow> (Error PleaseLogin, w1)
      | Inr accessToken \<Rightarrow>
     (case getDatabase e name w1 of
        (Inl err, w2) \<Rightarrow> (Error PleaseLogin, w2)
      | (Inr original, w2) \<Rightarrow>
     (case GetDatabaseSettings cfg (db_ID original) of
        None \<Rightarrow> (Panic NilDereference, w2)
      | Some dbSettings \<Rightarrow>
     (case new_request_err e (replicate_url (getHost e) name original) of
        Some err \<Rightarrow> (Error (NewRequestFailed err), w2)
      | None \<Rightarrow>
          (Ok (original,
               \<lparr>req_url = replicate_url (getHost e) name original,
                req_body = createDbReq name region (image_tag canary) (ds_Password dbSettings),
                req_authorization = ''Bearer '' @ accessToken\<rparr>),
           w2)))))))"

text \<open>
  Lines 413 to 467: the request is sent, the status checked, the body read and
  decoded, the settings derived and stored, the name cache invalidated.
\<close>

definition replicate_finish ::
  "env \<Rightarrow> Database \<Rightarrow> http_request \<Rightarrow> world \<Rightarrow> unit outcome \<times> world" where
  "replicate_finish e original req w =
     (case http_do e req of
        Inl err \<Rightarrow> (Error (TransportFailed err), emit (HttpPost req) w)
      | Inr resp \<Rightarrow>
     if StatusCode resp \<noteq> 200
     then (Error (FailedToCreateDatabase (Status resp)), emit (HttpPost req) w)
     else
     (case Body resp of
        ReadFailed err \<Rightarrow> (Error (BodyReadFailed err), emit (HttpPost req) w)
      | UnmarshalFailed err \<Rightarrow> (Error (JsonInvalid err), emit (HttpPost req) w)
      | Unmarshalled result \<Rightarrow>
     (case response_settings original result of
        Panic p \<Rightarrow> (Panic p, emit (HttpPost req) w)
      | Error er \<Rightarrow> (Error er, emit (HttpPost req) w)
      | Ok (dbId, dbSettings) \<Rightarrow>
          (Ok (), InvalidateDbNamesCache (AddDatabase dbId dbSettings (emit (HttpPost req) w))))))"

definition replicateCmd :: "env \<Rightarrow> bool \<Rightarrow> string \<Rightarrow> string \<Rightarrow> world \<Rightarrow> unit outcome \<times> world" where
  "replicateCmd e canary name region w =
     (case replicate_prepare e canary name region w of
        (Error er, w2) \<Rightarrow> (Error er, w2)
      | (Panic p, w2) \<Rightarrow> (Panic p, w2)
      | (Ok (original, req), w2) \<Rightarrow> replicate_finish e original req w2)"

section \<open>What the claims speak of\<close>

text \<open>
  The events that change something, remotely or in the local settings: the creations,
  the replication request, the destructions and the writes to the settings store.
  Listing the regions or the databases, probing, prompting and printing change nothing.
\<close>

fun is_mutation :: "event \<Rightarrow> bool" where
  "is_mutation (DatabasesCreate n r i) = True"
| "is_mutation (InstancesCreate n p r i) = True"
| "is_mutation (HttpPost req) = True"
| "is_mutation (AddDatabaseWrite k ds) = True"
| "is_mutation InvalidateCacheWrite = True"
| "is_mutation (SetCacheWrite ns) = True"
| "is_mutation (DestroyDatabaseCall n) = True"
| "is_mutation (DestroyRegionCall n r) = True"
| "is_mutation (DestroyInstanceCall n i) = True"
| "is_mutation _ = False"

text \<open>
  The fields the spec requires of a replication response, by the shape of the source
  database: the top level is an object with strings \<open>username\<close> and \<open>password\<close>; for a
  logical source an object \<open>instance\<close> with a string \<open>uuid\<close>, otherwise an object
  \<open>database\<close> with strings \<open>DbId\<close> and \<open>Hostname\<close>.
\<close>

fun is_string :: "jvalue \<Rightarrow> bool" where
  "is_string (JString s) = True"
| "is_string _ = False"

fun shape_fields_present :: "bool \<Rightarrow> jvalue \<Rightarrow> bool" where
  "shape_fields_present True (JObject m) = is_string (index_map m ''uuid'')"
| "shape_fields_present False (JObject m) =
     (is_string (index_map m ''DbId'') \<and> is_string (index_map m ''Hostname''))"
| "shape_fields_present logical _ = False"

fun fields_present :: "Database \<Rightarrow> jvalue \<Rightarrow> bool" where
  "fields_present original (JObject obj) =
     (is_string (index_map obj ''username'') \<and> is_string (index_map obj ''password'') \<and>
      (if db_Type original = ''logical''
       then shape_fields_present True (index_map obj ''instance'')
       else shape_fields_present False (index_map obj ''database'')))"
| "fields_present original _ = False"

text \<open>
  JSON text, for the claim on the request body. A JSON text is UTF-8 (RFC 8259,
  section 8.1). The well-formed byte sequences of UTF-8 (RFC 3629, section 4), read
  byte by byte: the state says which bytes may follow. Overlong forms, surrogates and
  code points above U+10FFFF are not well-formed.
\<close>

datatype utf8_state =
    U_start
  | U_tail1
  | U_tail2
  | U_tail3
  | U_after_E0
  | U_after_ED
  | U_after_F0
  | U_after_F4
  | U_bad

definition in_bytes :: "nat \<Rightarrow> nat \<Rightarrow> char \<Rightarrow> bool" where
  "in_bytes lo hi c = (lo \<le> (of_char c :: nat) \<and> (of_char c :: nat) \<le> hi)"

fun utf8_step :: "utf8_state \<Rightarrow> char \<Rightarrow> utf8_state" where
  "utf8_step U_start c =
     (if in_bytes 0x00 0x7F c then U_start
      else if in_bytes 0xC2 0xDF c then U_tail1
      else if in_bytes 0xE0 0xE0 c then U_after_E0
      else if in_bytes 0xE1 0xEC c then U_tail2
      else if in_bytes 0xED 0xED c then U_after_ED
      else if in_bytes 0xEE 0xEF c then U_tail2
      else if in_bytes 0xF0 0xF0 c then U_after_F0
      else if in_bytes 0xF1 0xF3 c then U_tail3
      else if in_bytes 0xF4 0xF4 c then U_after_F4
      else U_bad)"
| "utf8_step U_tail1 c = (if in_bytes 0x80 0xBF c then U_start else U_bad)"
| "utf8_step U_tail2 c = (if in_bytes 0x80 0xBF c then U_tail1 else U_bad)"
| "utf8_step U_tail3 c = (if in_bytes 0x80 0xBF c then U_tail2 else U_bad)"
| "utf8_step U_after_E0 c = (if in_bytes 0xA0 0xBF c then U_tail1 else U_bad)"
| "utf8_step U_after_ED c = (if in_bytes 0x80 0x9F c then U_tail1 else U_bad)"
| "utf8_step U_after_F0 c = (if in_bytes 0x90 0xBF c then U_tail2 else U_bad)"
| "utf8_step U_after_F4 c = (if in_bytes 0x80 0x8F c then U_tail2 else U_bad)"
| "utf8_step U_bad c = U_bad"

definition utf8_valid :: "string \<Rightarrow> bool" where
  "utf8_valid s = (foldl utf8_step U_start s = U_start)"

text \<open>
  A reader of a JSON text that is one object whose members are all strings (RFC 8259:
  white space between tokens, a string between double quotes, the two-character
  escapes, no control character inside a string). Every token but a string's content
  is ASCII, so the reader walks the bytes of a text that is well-formed UTF-8, and a
  byte of 0x80 or more inside a string is part of a character of the string. A
  \<^verbatim>\<open>\u\<close> escape is not decoded: a text holding one is rejected, so that for a text
  without backslashes \<open>None\<close> says that the text is not such an object. The members
  come in the order of the text.
\<close>

datatype reader =
    AtStart
  | AfterOpen
  | BeforeKey "(string \<times> string) list"
  | InString "(string \<times> string) list" "string option" string
  | InEscape "(string \<times> string) list" "string option" string
  | BeforeColon "(string \<times> string) list" string
  | BeforeValue "(string \<times> string) list" string
  | AfterValue "(string \<times> string) list"
  | AtEnd "(string \<times> string) list"
  | Rejected

definition is_ws :: "char \<Rightarrow> bool" where
  "is_ws c = (c = CHR 0x20 \<or> c = CHR 0x09 \<or> c = CHR 0x0A \<or> c = CHR 0x0D)"

definition unescape :: "char \<Rightarrow> char option" where
  "unescape c =
     (if c = CHR 0x22 then Some (CHR 0x22)
      else if c = CHR 0x5C then Some (CHR 0x5C)
      else if c = CHR ''/'' then Some (CHR ''/'')
      else if c = CHR ''b'' then Some (CHR 0x08)
      else if c = CHR ''f'' then Some (CHR 0x0C)
      else if c = CHR ''n'' then Some (CHR 0x0A)
      else if c = CHR ''r'' then Some (CHR 0x0D)
      else if c = CHR ''t'' then Some (CHR 0x09)
      else None)"

fun json_step :: "reader \<Rightarrow> char \<Rightarrow> reader" where
  "json_step AtStart c =
     (if is_ws c then AtStart else if c = CHR ''{'' then AfterOpen else Rejected)"
| "json_step AfterOpen c =
     (if is_ws c then AfterOpen
      else if c = CHR 0x22 then InString [] None []
      else if c = CHR ''}'' then AtEnd []
      else Rejected)"
| "json_step (BeforeKey ms) c =
     (if is_ws c then BeforeKey ms
      else if c = CHR 0x22 then InString ms None []
      else Rejected)"
| "json_step (InString ms k acc) c =
     (if c = CHR 0x22
      then (case k of None \<Rightarrow> BeforeColon ms acc | Some key \<Rightarrow> AfterValue (ms @ [(key, acc)]))
      else if c = CHR 0x5C then InEscape ms k acc
      else if (of_char c :: nat) < 0x20 then Rejected
      else InString ms k (acc @ [c]))"
| "json_step (InEscape ms k acc) c =
     (case unescape c of None \<Rightarrow> Rejected | Some d \<Rightarrow> InString ms k (acc @ [d]))"
| "json_step (BeforeColon ms key) c =
     (if is_ws c then BeforeColon ms key
      else if c = CHR '':'' then BeforeValue ms key
      else Rejected)"
| "json_step (BeforeValue ms key) c =
     (if is_ws c then BeforeValue ms key
      else if c = CHR 0x22 then InString ms (Some key) []
      else Rejected)"
| "json_step (AfterValue ms) c =
     (if is_ws c then AfterValue ms
      else if c = CHR '','' then BeforeKey ms
      else if c = CHR ''}'' then AtEnd ms
      else Rejected)"
| "json_step (AtEnd ms) c = (if is_ws c then AtEnd ms else Rejected)"
| "json_step Rejected c = Rejected"

definition json_members :: "string \<Rightarrow> (string \<times> string) list option" where
  "json_members text =
     (if utf8_valid text
      then (case foldl json_step AtStart text of AtEnd ms \<Rightarrow> Some ms | _ \<Rightarrow> None)
      else None)"

text \<open>The JSON object the spec gives as the request body.\<close>

definition request_object :: "string \<Rightarrow> string \<Rightarrow> string \<Rightarrow> string \<Rightarrow> (string \<times> string) list" where
  "request_object name region img password =
     [(''name'', name), (''region'', region), (''image'', img), (''type'', ''replica''),
      (''password'', password)]"

text \<open>A string free of double quotes and backslashes, as the claim has it; and a
  string that is its own JSON string body: well-formed UTF-8, free of those and of
  control characters.\<close>

definition free_of_quote_backslash :: "string \<Rightarrow> bool" where
  "free_of_quote_backslash s = list_all (\<lambda>c. c \<noteq> CHR 0x22 \<and> c \<noteq> CHR 0x5C) s"

definition plain_bytes :: "string \<Rightarrow> bool" where
  "plain_bytes s =
     list_all (\<lambda>c. c \<noteq> CHR 0x22 \<and> c \<noteq> CHR 0x5C \<and> \<not> (of_char c :: nat) < 0x20) s"

definition needs_no_escape :: "string \<Rightarrow> bool" where
  "needs_no_escape s = (plain_bytes s \<and> utf8_valid s)"

section \<open>A sample environment\<close>

text \<open>
  The scenario of the spec: a logical database \<open>app1\<close> and a primary database \<open>old1\<close>,
  a catalog of three regions, a probe answering \<open>gru\<close>, and a control plane answering a
  replication with the instance \<open>i-1\<close>.
\<close>

definition sample_databases :: "Database list" where
  "sample_databases =
     [\<lparr>db_ID = ''id-app1'', db_Name = ''app1'', db_Type = ''logical'',
       db_Hostname = ''app1.turso.io'', db_Regions = [''ams'']\<rparr>,
      \<lparr>db_ID = ''id-old1'', db_Name = ''old1'', db_Type = ''primary'',
       db_Hostname = ''old1.turso.io'', db_Regions = [''ams'']\<rparr>]"

definition logical_response :: jvalue where
  "logical_response =
     JObject [(''instance'', JObject [(''uuid'', JString ''i-1'')]),
              (''username'', JString ''u''), (''password'', JString ''p'')]"

definition primary_response :: jvalue where
  "primary_response =
     JObject [(''database'', JObject [(''DbId'', JString ''d-2''), (''Hostname'', JString ''r.turso.io'')]),
              (''username'', JString ''u''), (''password'', JString ''p'')]"

definition sample_env :: env where
  "sample_env =
     \<lparr>read_settings_err = None,
      regions_resp = Inr [''ams'', ''fra'', ''gru''],
      probe_resp = Decoded ''gru'',
      list_resp = Inr sample_databases,
      codename_resp = Inr ''calm-otter'',
      db_create_resp = (\<lambda>n r i. Inr
         \<lparr>cr_Database = \<lparr>db_ID = ''id-new'', db_Name = n, db_Type = ''logical'',
                          db_Hostname = ''new.turso.io'', db_Regions = [r]\<rparr>,
          cr_Username = ''u'', cr_Password = ''p''\<rparr>),
      inst_create_resp = (\<lambda>n p r i. None),
      api_baseurl = [],
      new_request_err = (\<lambda>u. None),
      http_do = (\<lambda>req. Inr \<lparr>StatusCode = 200, Status = ''200 OK'',
                               Body = Unmarshalled logical_response\<rparr>),
      prompt_resp = Inr True,
      destroy_db_resp = (\<lambda>n. None),
      destroy_region_resp = (\<lambda>n r. None),
      destroy_instance_resp = (\<lambda>n i. None)\<rparr>"

text \<open>The same environment, with the control plane answering every request with the
  given status and decoded body.\<close>

definition answering :: "int \<Rightarrow> string \<Rightarrow> jvalue \<Rightarrow> env" where
  "answering code status result =
     sample_env\<lparr>http_do :=
       (\<lambda>req. Inr \<lparr>StatusCode = code, Status = status, Body = Unmarshalled result\<rparr>)\<rparr>"

text \<open>The requests replicateCmd builds for \<open>app1\<close> and for \<open>old1\<close>, to region \<open>fra\<close>.\<close>

definition sample_request :: http_request where
  "sample_request =
     \<lparr>req_url = ''https://api.chiseledge.com/v2/databases/app1/instances'',
      req_body = createDbReq ''app1'' ''fra'' ''latest'' ''secret'',
      req_authorization = ''Bearer tok''\<rparr>"

definition primary_request :: http_request where
  "primary_request =
     \<lparr>req_url = ''https://api.chiseledge.com/v1/databases'',
      req_body = createDbReq ''old1'' ''fra'' ''latest'' ''hunter2'',
      req_authorization = ''Bearer tok''\<rparr>"

definition sample_settings :: "string \<rightharpoonup> DatabaseSettings" where
  "sample_settings =
     [''id-app1'' \<mapsto> \<lparr>ds_Name = ''app1'', ds_Host = ''app1.turso.io'',
                        ds_Username = ''u0'', ds_Password = ''secret''\<rparr>,
      ''id-old1'' \<mapsto> \<lparr>ds_Name = ''old1'', ds_Host = ''old1.turso.io'',
                        ds_Username = ''u1'', ds_Password = ''hunter2''\<rparr>]"

definition sample_world :: world where
  "sample_world =
     \<lparr>config = \<lparr>token = ''tok'', databases = sample_settings, db_names_cache = None\<rparr>,
      log = []\<rparr>"

section \<open>Supporting lemmas\<close>

lemmas sample_defs = sample_env_def sample_world_def sample_databases_def sample_settings_def
  logical_response_def primary_response_def

subsection \<open>Region validation\<close>

lemma region_in_set: "region_in region ids = (region \<in> set ids)"
  by (induction ids) auto

lemma isValidRegion_fst:
  "fst (isValidRegion e region w) =
     (case regions_resp e of Inl err \<Rightarrow> True | Inr ids \<Rightarrow> ids = [] \<or> region \<in> set ids)"
  by (simp add: isValidRegion_def getRegionIds_def region_in_set split: sum.splits)

lemma isValidRegion_snd: "snd (isValidRegion e region w) = emit GetRegionsCall w"
  by (simp add: isValidRegion_def getRegionIds_def split: sum.splits)

lemma isValidRegion_world: "isValidRegion e region w = (b, w1) \<Longrightarrow> w1 = emit GetRegionsCall w"
  using isValidRegion_snd [of e region w] by simp

subsection \<open>The decoded response\<close>


lemma response_settings_logical:
  assumes "db_Type original = ''logical''"
  shows "response_settings original result =
     (case result of
        JObject obj \<Rightarrow>
          (case index_map obj ''instance'' of
             JObject m \<Rightarrow>
               (case index_map obj ''username'' of
                  JString username \<Rightarrow>
                    (case index_map obj ''password'' of
                       JString password \<Rightarrow>
                         (case index_map m ''uuid'' of
                            JString dbId \<Rightarrow>
                              Ok (dbId, \<lparr>ds_Name = [], ds_Host = db_Hostname original,
                                          ds_Username = username, ds_Password = password\<rparr>)
                          | _ \<Rightarrow> Panic InterfaceConversion)
                     | _ \<Rightarrow> Panic InterfaceConversion)
                | _ \<Rightarrow> Panic InterfaceConversion)
           | _ \<Rightarrow> Panic InterfaceConversion)
      | _ \<Rightarrow> Panic InterfaceConversion)"
  using assms by (simp add: response_settings_def split: jvalue.splits)

lemma response_settings_other:
  assumes "db_Type original \<noteq> ''logical''"
  shows "response_settings original result =
     (case result of
        JObject obj \<Rightarrow>
          (case index_map obj ''database'' of
             JObject m \<Rightarrow>
               (case index_map obj ''username'' of
                  JString username \<Rightarrow>
                    (case index_map obj ''password'' of
                       JString password \<Rightarrow>
                         (case index_map m ''DbId'' of
                            JString dbId \<Rightarrow>
                              (case index_map m ''Hostname'' of
                                 JString dbHost \<Rightarrow>
                                   Ok (dbId, \<lparr>ds_Name = [], ds_Host = dbHost,
                                               ds_Username = username, ds_Password = password\<rparr>)
                               | _ \<Rightarrow> Panic InterfaceConversion)
                          | _ \<Rightarrow> Panic InterfaceConversion)
                     | _ \<Rightarrow> Panic InterfaceConversion)
                | _ \<Rightarrow> Panic InterfaceConversion)
           | _ \<Rightarrow> Panic InterfaceConversion)
      | _ \<Rightarrow> Panic InterfaceConversion)"
  using assms by (simp add: response_settings_def split: jvalue.splits)

lemma response_settings_total:
  "response_settings original result = Panic InterfaceConversion
   \<or> (\<exists>dbId ds. response_settings original result = Ok (dbId, ds))"
  by (cases "db_Type original = ''logical''")
     (simp_all add: response_settings_logical response_settings_other split: jvalue.splits)



subsection \<open>The two halves of replicateCmd\<close>

lemma replicate_prepare_Ok:
  assumes "replicate_prepare e canary name region w = (Ok (original, req), w2)"
  shows "read_settings_err e = None \<and> name \<noteq> [] \<and> region \<noteq> []
       \<and> fst (isValidRegion e region w)
       \<and> token (config w) \<noteq> []
       \<and> fst (getDatabase e name (emit GetRegionsCall w)) = Inr original
       \<and> (\<exists>dbSettings. databases (config w) (db_ID original) = Some dbSettings
            \<and> req = \<lparr>req_url = replicate_url (getHost e) name original,
                      req_body = createDbReq name region (image_tag canary) (ds_Password dbSettings),
                      req_authorization = ''Bearer '' @ token (config w)\<rparr>)
       \<and> new_request_err e (replicate_url (getHost e) name original) = None
       \<and> w2 = emit DatabasesList (emit GetRegionsCall w)"
proof -
  obtain b w1 where iv: "isValidRegion e region w = (b, w1)"
    by force
  have w1: "w1 = emit GetRegionsCall w"
    using iv by (rule isValidRegion_world)
  show ?thesis
    using assms iv w1
    by (auto simp: replicate_prepare_def ReadSettings_def getAccessToken_def GetToken_def
        getDatabase_def getDatabases_def GetDatabaseSettings_def emit_def
        split: option.splits sum.splits if_splits prod.splits)
qed


lemma replicateCmd_after_prepare:
  "replicate_prepare e canary name region w = (Ok (original, req), w2) \<Longrightarrow>
   replicateCmd e canary name region w = replicate_finish e original req w2"
  by (simp add: replicateCmd_def)


lemma replicate_finish_Ok:
  assumes "replicate_finish e original req w2 = (Ok (), w3)"
  shows "\<exists>resp result dbId ds. http_do e req = Inr resp \<and> StatusCode resp = 200
       \<and> Body resp = Unmarshalled result \<and> response_settings original result = Ok (dbId, ds)
       \<and> w3 = InvalidateDbNamesCache (AddDatabase dbId ds (emit (HttpPost req) w2))"
  using assms
  by (auto simp: replicate_finish_def
      split: sum.splits if_splits body_outcome.splits outcome.splits prod.splits)

subsection \<open>The sample run\<close>

lemmas prepare_defs = replicate_prepare_def ReadSettings_def getAccessToken_def GetToken_def
  getDatabase_def getDatabases_def GetDatabaseSettings_def emit_def isValidRegion_def
  getRegionIds_def getHost_def replicate_url_def image_tag_def

lemma sample_prepare:
  "replicate_prepare (answering code status result) False ''app1'' ''fra'' sample_world =
     (Ok (hd sample_databases, sample_request),
      sample_world\<lparr>log := [GetRegionsCall, DatabasesList]\<rparr>)"
  by (simp add: prepare_defs sample_defs sample_request_def answering_def)

lemma primary_prepare:
  "replicate_prepare (answering code status result) False ''old1'' ''fra'' sample_world =
     (Ok (sample_databases ! 1, primary_request),
      sample_world\<lparr>log := [GetRegionsCall, DatabasesList]\<rparr>)"
  by (simp add: prepare_defs sample_defs primary_request_def answering_def)

lemma sample_replicate:
  "replicateCmd (answering code status result) False ''app1'' ''fra'' sample_world =
     replicate_finish (answering code status result) (hd sample_databases) sample_request
       (sample_world\<lparr>log := [GetRegionsCall, DatabasesList]\<rparr>)"
  by (rule replicateCmd_after_prepare [OF sample_prepare])

lemma primary_replicate:
  "replicateCmd (answering code status result) False ''old1'' ''fra'' sample_world =
     replicate_finish (answering code status result) (sample_databases ! 1) primary_request
       (sample_world\<lparr>log := [GetRegionsCall, DatabasesList]\<rparr>)"
  by (rule replicateCmd_after_prepare [OF primary_prepare])

section \<open>Replication\<close>

text \<open>
  C1. Replicate shape dispatch. Whenever replicateCmd gets as far as building its
  request, \<open>original\<close> is the database looked up by name. If its type is \<open>logical\<close>, the
  request goes to \<open>{host}/v2/databases/{name}/instances\<close>, and a successful run stores
  the new settings under the \<open>uuid\<close> of the response's \<open>instance\<close> object, with the host
  of the source database unchanged. For every other type the request goes to
  \<open>{host}/v1/databases\<close>, and the response's \<open>database\<close> object supplies both the key
  (\<open>DbId\<close>) and the host (\<open>Hostname\<close>).
\<close>

theorem replicate_shape_dispatch:
  assumes "replicate_prepare e canary name region w = (Ok (original, req), w2)"
  shows "fst (getDatabase e name (emit GetRegionsCall w)) = Inr original
       \<and> (db_Type original = ''logical'' \<longrightarrow>
            req_url req = getHost e @ ''/v2/databases/'' @ name @ ''/instances''
          \<and> (\<forall>w3. replicateCmd e canary name region w = (Ok (), w3) \<longrightarrow>
               (\<exists>resp obj m uuid username password.
                  http_do e req = Inr resp \<and> Body resp = Unmarshalled (JObject obj)
                \<and> index_map obj ''instance'' = JObject m
                \<and> index_map m ''uuid'' = JString uuid
                \<and> index_map obj ''username'' = JString username
                \<and> index_map obj ''password'' = JString password
                \<and> w3 = InvalidateDbNamesCache
                         (AddDatabase uuid
                            \<lparr>ds_Name = [], ds_Host = db_Hostname original,
                             ds_Username = username, ds_Password = password\<rparr>
                            (emit (HttpPost req) w2)))))
       \<and> (db_Type original \<noteq> ''logical'' \<longrightarrow>
            req_url req = getHost e @ ''/v1/databases''
          \<and> (\<forall>w3. replicateCmd e canary name region w = (Ok (), w3) \<longrightarrow>
               (\<exists>resp obj m dbId hostname username password.
                  http_do e req = Inr resp \<and> Body resp = Unmarshalled (JObject obj)
                \<and> index_map obj ''database'' = JObject m
                \<and> index_map m ''DbId'' = JString dbId
                \<and> index_map m ''Hostname'' = JString hostname
                \<and> index_map obj ''username'' = JString username
                \<and> index_map obj ''password'' = JString password
                \<and> w3 = InvalidateDbNamesCache
                         (AddDatabase dbId
                            \<lparr>ds_Name = [], ds_Host = hostname,
                             ds_Username = username, ds_Password = password\<rparr>
                            (emit (HttpPost req) w2)))))"
proof -
  note p = replicate_prepare_Ok [OF assms]
  have url: "req_url req = replicate_url (getHost e) name original"
    using p by auto
  have fin: "replicateCmd e canary name region w = replicate_finish e original req w2"
    using assms by (rule replicateCmd_after_prepare)
  have l: "db_Type original = ''logical'' \<Longrightarrow> replicate_finish e original req w2 = (Ok (), w3) \<Longrightarrow>
      \<exists>resp obj m uuid username password.
          http_do e req = Inr resp \<and> Body resp = Unmarshalled (JObject obj)
        \<and> index_map obj ''instance'' = JObject m
        \<and> index_map m ''uuid'' = JString uuid
        \<and> index_map obj ''username'' = JString username
        \<and> index_map obj ''password'' = JString password
        \<and> w3 = InvalidateDbNamesCache
                 (AddDatabase uuid
                    \<lparr>ds_Name = [], ds_Host = db_Hostname original,
                     ds_Username = username, ds_Password = password\<rparr>
                    (emit (HttpPost req) w2))" for w3
  proof -
    assume t: "db_Type original = ''logical''" and f: "replicate_finish e original req w2 = (Ok (), w3)"
    from replicate_finish_Ok [OF f] obtain resp result dbId ds where
      r: "http_do e req = Inr resp" "Body resp = Unmarshalled result"
         "response_settings original result = Ok (dbId, ds)"
         "w3 = InvalidateDbNamesCache (AddDatabase dbId ds (emit (HttpPost req) w2))"
      by blast
    from r(3) show ?thesis
      unfolding response_settings_logical [OF t]
      using r(1,2,4) by (auto split: jvalue.splits)
  qed
  have o: "db_Type original \<noteq> ''logical'' \<Longrightarrow> replicate_finish e original req w2 = (Ok (), w3) \<Longrightarrow>
      \<exists>resp obj m dbId hostname username password.
          http_do e req = Inr resp \<and> Body resp = Unmarshalled (JObject obj)
        \<and> index_map obj ''database'' = JObject m
        \<and> index_map m ''DbId'' = JString dbId
        \<and> index_map m ''Hostname'' = JString hostname
        \<and> index_map obj ''username'' = JString username
        \<and> index_map obj ''password'' = JString password
        \<and> w3 = InvalidateDbNamesCache
                 (AddDatabase dbId
                    \<lparr>ds_Name = [], ds_Host = hostname,
                     ds_Username = username, ds_Password = password\<rparr>
                    (emit (HttpPost req) w2))" for w3
  proof -
    assume t: "db_Type original \<noteq> ''logical''" and f: "replicate_finish e original req w2 = (Ok (), w3)"
    from replicate_finish_Ok [OF f] obtain resp result dbId ds where
      r: "http_do e req = Inr resp" "Body resp = Unmarshalled result"
         "response_settings original result = Ok (dbId, ds)"
         "w3 = InvalidateDbNamesCache (AddDatabase dbId ds (emit (HttpPost req) w2))"
      by blast
    from r(3) show ?thesis
      unfolding response_settings_other [OF t]
      using r(1,2,4) by (auto split: jvalue.splits)
  qed
  show ?thesis
    using p url l o unfolding fin by (simp add: replicate_url_def)
qed

text \<open>
  The scenario of the spec: replicating the logical \<open>app1\<close> to \<open>fra\<close> stores
  \<open>{Host: app1.turso.io, Username: u, Password: p}\<close> under \<open>i-1\<close>; replicating the
  primary \<open>old1\<close> takes key and host from the response.
\<close>

theorem replicate_shape_dispatch_witness:
  "req_url sample_request = ''https://api.chiseledge.com/v2/databases/app1/instances''
   \<and> replicateCmd (answering 200 ''200 OK'' logical_response) False ''app1'' ''fra'' sample_world =
       (Ok (),
        \<lparr>config = \<lparr>token = ''tok'',
                    databases = sample_settings(''i-1'' \<mapsto>
                      \<lparr>ds_Name = [], ds_Host = ''app1.turso.io'', ds_Username = ''u'', ds_Password = ''p''\<rparr>),
                    db_names_cache = None\<rparr>,
         log = [GetRegionsCall, DatabasesList, HttpPost sample_request,
                AddDatabaseWrite ''i-1''
                  \<lparr>ds_Name = [], ds_Host = ''app1.turso.io'', ds_Username = ''u'', ds_Password = ''p''\<rparr>,
                InvalidateCacheWrite]\<rparr>)
   \<and> req_url primary_request = ''https://api.chiseledge.com/v1/databases''
   \<and> replicateCmd (answering 200 ''200 OK'' primary_response) False ''old1'' ''fra'' sample_world =
       (Ok (),
        \<lparr>config = \<lparr>token = ''tok'',
                    databases = sample_settings(''d-2'' \<mapsto>
                      \<lparr>ds_Name = [], ds_Host = ''r.turso.io'', ds_Username = ''u'', ds_Password = ''p''\<rparr>),
                    db_names_cache = None\<rparr>,
         log = [GetRegionsCall, DatabasesList, HttpPost primary_request,
                AddDatabaseWrite ''d-2''
                  \<lparr>ds_Name = [], ds_Host = ''r.turso.io'', ds_Username = ''u'', ds_Password = ''p''\<rparr>,
                InvalidateCacheWrite]\<rparr>)"
proof -
  note l = replicate_shape_dispatch [OF sample_prepare [of 200 "''200 OK''" logical_response]]
  note p = replicate_shape_dispatch [OF primary_prepare [of 200 "''200 OK''" primary_response]]
  have a: "replicateCmd (answering 200 ''200 OK'' logical_response) False ''app1'' ''fra'' sample_world =
       (Ok (),
        \<lparr>config = \<lparr>token = ''tok'',
                    databases = sample_settings(''i-1'' \<mapsto>
                      \<lparr>ds_Name = [], ds_Host = ''app1.turso.io'', ds_Username = ''u'', ds_Password = ''p''\<rparr>),
                    db_names_cache = None\<rparr>,
         log = [GetRegionsCall, DatabasesList, HttpPost sample_request,
                AddDatabaseWrite ''i-1''
                  \<lparr>ds_Name = [], ds_Host = ''app1.turso.io'', ds_Username = ''u'', ds_Password = ''p''\<rparr>,
                InvalidateCacheWrite]\<rparr>)"
    unfolding sample_replicate
    by (simp add: replicate_finish_def response_settings_def
        index_map_def AddDatabase_def InvalidateDbNamesCache_def emit_def
        answering_def sample_defs)
  have b: "replicateCmd (answering 200 ''200 OK'' primary_response) False ''old1'' ''fra'' sample_world =
       (Ok (),
        \<lparr>config = \<lparr>token = ''tok'',
                    databases = sample_settings(''d-2'' \<mapsto>
                      \<lparr>ds_Name = [], ds_Host = ''r.turso.io'', ds_Username = ''u'', ds_Password = ''p''\<rparr>),
                    db_names_cache = None\<rparr>,
         log = [GetRegionsCall, DatabasesList, HttpPost primary_request,
                AddDatabaseWrite ''d-2''
                  \<lparr>ds_Name = [], ds_Host = ''r.turso.io'', ds_Username = ''u'', ds_Password = ''p''\<rparr>,
                InvalidateCacheWrite]\<rparr>)"
    unfolding primary_replicate
    by (simp add: replicate_finish_def response_settings_def
        index_map_def AddDatabase_def InvalidateDbNamesCache_def emit_def
        answering_def sample_defs)
  show ?thesis
    using l p a b by (simp add: sample_databases_def getHost_def answering_def sample_env_def)
qed




text \<open>
  C6, as the claim has it, fails: a response with status 201 and a well-formed body is
  not parsed. replicateCmd compares the status with 200, not with the 2xx range.
\<close>

theorem replicate_status_201_counterexample:
  "fst (replicateCmd (answering 201 ''201 Created'' logical_response) False ''app1'' ''fra'' sample_world)
     = Error (FailedToCreateDatabase ''201 Created'')
   \<and> fields_present (hd sample_databases) logical_response"
  unfolding sample_replicate
  by (simp add: replicate_finish_def answering_def sample_defs index_map_def)

text \<open>
  C6, amended. Replicate HTTP status handling: for every invocation that receives a
  control-plane response, the command fails with the error "Failed to create
  database: <status>" exactly when the HTTP status code is not 200; for status 200 it
  goes on to read and parse the body.
\<close>

theorem replicate_status_check:
  assumes "replicate_prepare e canary name region w = (Ok (original, req), w2)"
    and "http_do e req = Inr resp"
  shows "(StatusCode resp \<noteq> 200 \<longrightarrow>
            replicateCmd e canary name region w =
              (Error (FailedToCreateDatabase (Status resp)), emit (HttpPost req) w2)
          \<and> error_text (FailedToCreateDatabase (Status resp)) = ''Failed to create database: '' @ Status resp)
       \<and> (StatusCode resp = 200 \<longrightarrow>
            (\<forall>s. fst (replicateCmd e canary name region w) \<noteq> Error (FailedToCreateDatabase s))
          \<and> fst (replicateCmd e canary name region w) =
              (case Body resp of
                 ReadFailed err \<Rightarrow> Error (BodyReadFailed err)
               | UnmarshalFailed err \<Rightarrow> Error (JsonInvalid err)
               | Unmarshalled result \<Rightarrow>
                   (case response_settings original result of
                      Ok kv \<Rightarrow> Ok ()
                    | Error er \<Rightarrow> Error er
                    | Panic p \<Rightarrow> Panic p)))"
proof -
  have fin: "replicateCmd e canary name region w = replicate_finish e original req w2"
    using assms(1) by (rule replicateCmd_after_prepare)
  have a: "StatusCode resp \<noteq> 200 \<Longrightarrow> replicate_finish e original req w2 =
      (Error (FailedToCreateDatabase (Status resp)), emit (HttpPost req) w2)"
    using assms(2) by (simp add: replicate_finish_def)
  have b: "StatusCode resp = 200 \<Longrightarrow> fst (replicate_finish e original req w2) =
      (case Body resp of
         ReadFailed err \<Rightarrow> Error (BodyReadFailed err)
       | UnmarshalFailed err \<Rightarrow> Error (JsonInvalid err)
       | Unmarshalled result \<Rightarrow>
           (case response_settings original result of
              Ok kv \<Rightarrow> Ok ()
            | Error er \<Rightarrow> Error er
            | Panic p \<Rightarrow> Panic p))"
    using assms(2)
    by (simp add: replicate_finish_def split: body_outcome.splits outcome.splits prod.splits)
  have c: "StatusCode resp = 200 \<Longrightarrow> fst (replicate_finish e original req w2) \<noteq> Error (FailedToCreateDatabase s)" for s
  proof (cases "Body resp")
    case (Unmarshalled result)
    assume "StatusCode resp = 200"
    then show ?thesis
      using b Unmarshalled response_settings_total [of original result] by auto
  qed (use b in auto)
  show ?thesis
    unfolding fin using a b c by simp
qed

theorem replicate_status_check_witness:
  "fst (replicateCmd (answering 500 ''500 Internal Server Error'' JNull) False ''app1'' ''fra'' sample_world)
     = Error (FailedToCreateDatabase ''500 Internal Server Error'')
   \<and> fst (replicateCmd (answering 200 ''200 OK'' logical_response) False ''app1'' ''fra'' sample_world) = Ok ()"
proof -
  have h2: "http_do (answering c s r) sample_request =
      Inr \<lparr>StatusCode = c, Status = s, Body = Unmarshalled r\<rparr>" for c s r
    by (simp add: answering_def sample_env_def)
  note t1 = replicate_status_check [OF sample_prepare h2, of 500 "''500 Internal Server Error''" JNull]
  note t2 = replicate_status_check [OF sample_prepare h2, of 200 "''200 OK''" logical_response]
  have ok: "response_settings (hd sample_databases) logical_response =
      Ok (''i-1'', \<lparr>ds_Name = [], ds_Host = ''app1.turso.io'', ds_Username = ''u'', ds_Password = ''p''\<rparr>)"
    by (simp add: response_settings_def index_map_def sample_defs)
  show ?thesis
    using t1 t2 ok by simp
qed

text \<open>
  C9. replicateCmd reads the password of the local settings entry of the source
  database's remote id without checking that the entry exists. For every invocation
  that finds the source database, if the settings store has no entry for its id the
  command panics with a nil dereference, before any request is sent and with the
  settings untouched; if the entry exists, no nil dereference happens.
\<close>

theorem replicate_absent_settings_panics:
  assumes "read_settings_err e = None" and "name \<noteq> []" and "region \<noteq> []"
    and "fst (isValidRegion e region w)" and "token (config w) \<noteq> []"
    and "list_resp e = Inr dbs" and "find_database name dbs = Some original"
  shows "(databases (config w) (db_ID original) = None \<longrightarrow>
            replicateCmd e canary name region w =
              (Panic NilDereference, emit DatabasesList (emit GetRegionsCall w))
          \<and> config (snd (replicateCmd e canary name region w)) = config w)
       \<and> (databases (config w) (db_ID original) \<noteq> None \<longrightarrow>
            fst (replicateCmd e canary name region w) \<noteq> Panic NilDereference)"
proof -
  obtain b w1 where iv: "isValidRegion e region w = (b, w1)"
    by force
  have w1: "w1 = emit GetRegionsCall w"
    using iv by (rule isValidRegion_world)
  have b: "b"
    using assms(4) iv by simp
  have a: "databases (config w) (db_ID original) = None \<Longrightarrow>
      replicate_prepare e canary name region w =
        (Panic NilDereference, emit DatabasesList (emit GetRegionsCall w))"
    using assms iv w1 b
    by (simp add: replicate_prepare_def ReadSettings_def getAccessToken_def GetToken_def
        getDatabase_def getDatabases_def GetDatabaseSettings_def emit_def)
  have c: "fst (replicateCmd e canary name region w) \<noteq> Panic NilDereference"
    if s: "databases (config w) (db_ID original) = Some ds" for ds
  proof (cases "new_request_err e (replicate_url (getHost e) name original)")
    case (Some err)
    have "replicate_prepare e canary name region w = (Error (NewRequestFailed err), emit DatabasesList (emit GetRegionsCall w))"
      using assms iv w1 b s Some
      by (simp add: replicate_prepare_def ReadSettings_def getAccessToken_def GetToken_def
          getDatabase_def getDatabases_def GetDatabaseSettings_def emit_def)
    then show ?thesis
      by (simp add: replicateCmd_def)
  next
    case None
    define req where "req = \<lparr>req_url = replicate_url (getHost e) name original,
        req_body = createDbReq name region (image_tag canary) (ds_Password ds),
        req_authorization = ''Bearer '' @ token (config w)\<rparr>"
    have "replicate_prepare e canary name region w = (Ok (original, req), emit DatabasesList (emit GetRegionsCall w))"
      using assms iv w1 b s None
      by (simp add: replicate_prepare_def ReadSettings_def getAccessToken_def GetToken_def
          getDatabase_def getDatabases_def GetDatabaseSettings_def emit_def req_def)
    then have fin: "replicateCmd e canary name region w =
        replicate_finish e original req (emit DatabasesList (emit GetRegionsCall w))"
      by (rule replicateCmd_after_prepare)
    have nn: "response_settings original result \<noteq> Panic NilDereference" for result
      using response_settings_total [of original result] by auto
    have "fst (replicate_finish e original req w2) \<noteq> Panic NilDereference" for w2
      using nn
      by (auto simp: replicate_finish_def
          split: sum.splits body_outcome.splits outcome.splits prod.splits)
    then show ?thesis
      unfolding fin by simp
  qed
  show ?thesis
    using a c by (auto simp: replicateCmd_def emit_def)
qed

theorem replicate_absent_settings_panics_witness:
  "replicateCmd sample_env False ''app1'' ''fra''
       (sample_world\<lparr>config := \<lparr>token = ''tok'', databases = Map.empty, db_names_cache = None\<rparr>\<rparr>)
     = (Panic NilDereference,
        \<lparr>config = \<lparr>token = ''tok'', databases = Map.empty, db_names_cache = None\<rparr>,
         log = [GetRegionsCall, DatabasesList]\<rparr>)
   \<and> fst (replicateCmd sample_env False ''app1'' ''fra'' sample_world) \<noteq> Panic NilDereference"
proof -
  let ?w = "sample_world\<lparr>config := \<lparr>token = ''tok'', databases = Map.empty, db_names_cache = None\<rparr>\<rparr>"
  have h1: "read_settings_err sample_env = None" and h2: "''app1'' \<noteq> []" and h3: "''fra'' \<noteq> []"
    and h4: "fst (isValidRegion sample_env ''fra'' w)" and h6: "list_resp sample_env = Inr sample_databases"
    and h7: "find_database ''app1'' sample_databases = Some (hd sample_databases)" for w
    by (simp_all add: sample_env_def sample_databases_def isValidRegion_def getRegionIds_def)
  have h5: "token (config ?w) \<noteq> []" and h5': "token (config sample_world) \<noteq> []"
    by (simp_all add: sample_world_def)
  note t1 = replicate_absent_settings_panics [OF h1 h2 h3 h4 h5 h6 h7, of False]
  note t2 = replicate_absent_settings_panics [OF h1 h2 h3 h4 h5' h6 h7, of False]
  show ?thesis
    using t1 t2 by (simp add: sample_defs emit_def)
qed

section \<open>Creation\<close>

subsection \<open>What createCmd does before it creates anything\<close>

lemma probeClosestRegion_frame:
  "probeClosestRegion e w = (region, w1) \<Longrightarrow>
   config w1 = config w \<and> (\<exists>evs. log w1 = log w @ evs \<and> filter is_mutation evs = [])"
  by (auto simp: probeClosestRegion_def isValidRegion_def getRegionIds_def emit_def
      split: probe_outcome.splits sum.splits if_splits)

lemma create_prepare_frame:
  assumes "create_prepare e region_flag args w = (r, w1)"
  shows "config w1 = config w \<and> (\<exists>evs. log w1 = log w @ evs \<and> filter is_mutation evs = [])
       \<and> (\<forall>p. r \<noteq> Panic p)"
proof (cases "region_flag = []")
  case True
  obtain region wp where pr: "probeClosestRegion e w = (region, wp)"
    by force
  note f = probeClosestRegion_frame [OF pr]
  show ?thesis
    using assms True pr f
    by (auto simp: create_prepare_def ReadSettings_def split: option.splits sum.splits)
next
  case False
  obtain b wv where iv: "isValidRegion e region_flag w = (b, wv)"
    by force
  have wv: "wv = emit GetRegionsCall w"
    using iv by (rule isValidRegion_world)
  show ?thesis
    using assms False iv wv
    by (auto simp: create_prepare_def ReadSettings_def emit_def
        split: option.splits sum.splits if_splits)
qed

text \<open>
  C5. Create side-effect order and abort. Resolving the name and the region changes
  nothing: it writes no settings and makes no mutating call, and it ends in an error
  or in a name and a region. From there every invocation performs its effects in the
  order remote database create, remote instance create, local settings write, name
  cache invalidation, and a failure ends the command at that step. When the instance
  creation fails after the database was created, the error names the database, the
  log ends with the two creation calls (no call that would undo the first), and the
  settings store, its name cache included, is as it was.
\<close>

theorem create_order_and_abort:
  assumes "create_prepare e region_flag args w = (r, w1)"
  shows "config w1 = config w
       \<and> (\<exists>evs. log w1 = log w @ evs \<and> filter is_mutation evs = [])
       \<and> (\<forall>p. r \<noteq> Panic p)
       \<and> (\<forall>er. r = Error er \<longrightarrow> createCmd e region_flag canary args w = (Error er, w1))
       \<and> (\<forall>name region. r = Ok (name, region) \<longrightarrow>
            (\<forall>err. db_create_resp e name region (image_tag canary) = Inl err \<longrightarrow>
               createCmd e region_flag canary args w =
                 (Error (CouldNotCreateDatabase name err),
                  \<lparr>config = config w,
                   log = log w1 @ [DatabasesCreate name region (image_tag canary)]\<rparr>))
          \<and> (\<forall>res err. db_create_resp e name region (image_tag canary) = Inr res
                 \<and> inst_create_resp e name (cr_Password res) region (image_tag canary) = Some err \<longrightarrow>
               createCmd e region_flag canary args w =
                 (Error (InstanceCreateFailed name err),
                  \<lparr>config = config w,
                   log = log w1 @ [DatabasesCreate name region (image_tag canary),
                                   InstancesCreate name (cr_Password res) region (image_tag canary)]\<rparr>)
             \<and> error_text (InstanceCreateFailed name err) =
                 ''failed to create instance for database '' @ name @ '': '' @ err)
          \<and> (\<forall>res. db_create_resp e name region (image_tag canary) = Inr res
                 \<and> inst_create_resp e name (cr_Password res) region (image_tag canary) = None \<longrightarrow>
               createCmd e region_flag canary args w =
                 (Ok (),
                  \<lparr>config = (config w)
                     \<lparr>databases := (databases (config w))
                        (db_ID (cr_Database res) \<mapsto>
                           \<lparr>ds_Name = db_Name (cr_Database res),
                            ds_Host = db_Hostname (cr_Database res),
                            ds_Username = cr_Username res,
                            ds_Password = cr_Password res\<rparr>),
                      db_names_cache := None\<rparr>,
                   log = log w1 @ [DatabasesCreate name region (image_tag canary),
                                   InstancesCreate name (cr_Password res) region (image_tag canary),
                                   AddDatabaseWrite (db_ID (cr_Database res))
                                     \<lparr>ds_Name = db_Name (cr_Database res),
                                      ds_Host = db_Hostname (cr_Database res),
                                      ds_Username = cr_Username res,
                                      ds_Password = cr_Password res\<rparr>,
                                   InvalidateCacheWrite]\<rparr>)))"
proof -
  note f = create_prepare_frame [OF assms]
  have cfg: "config w1 = config w"
    using f by simp
  have er: "r = Error er \<Longrightarrow> createCmd e region_flag canary args w = (Error er, w1)" for er
    using assms by (simp add: createCmd_def)
  have ok: "r = Ok (name, region) \<Longrightarrow>
      createCmd e region_flag canary args w = create_provision e canary name region w1" for name region
    using assms by (simp add: createCmd_def)
  have a: "db_create_resp e name region (image_tag canary) = Inl err \<Longrightarrow>
      create_provision e canary name region w1 =
        (Error (CouldNotCreateDatabase name err),
         \<lparr>config = config w, log = log w1 @ [DatabasesCreate name region (image_tag canary)]\<rparr>)"
    for name region err
    using cfg by (simp add: create_provision_def emit_def)
  have b: "db_create_resp e name region (image_tag canary) = Inr res \<Longrightarrow>
      inst_create_resp e name (cr_Password res) region (image_tag canary) = Some err \<Longrightarrow>
      create_provision e canary name region w1 =
        (Error (InstanceCreateFailed name err),
         \<lparr>config = config w,
          log = log w1 @ [DatabasesCreate name region (image_tag canary),
                          InstancesCreate name (cr_Password res) region (image_tag canary)]\<rparr>)"
    for name region res err
    using cfg by (simp add: create_provision_def emit_def)
  have c: "db_create_resp e name region (image_tag canary) = Inr res \<Longrightarrow>
      inst_create_resp e name (cr_Password res) region (image_tag canary) = None \<Longrightarrow>
      create_provision e canary name region w1 =
        (Ok (),
         \<lparr>config = (config w)
            \<lparr>databases := (databases (config w))
               (db_ID (cr_Database res) \<mapsto>
                  \<lparr>ds_Name = db_Name (cr_Database res),
                   ds_Host = db_Hostname (cr_Database res),
                   ds_Username = cr_Username res,
                   ds_Password = cr_Password res\<rparr>),
             db_names_cache := None\<rparr>,
          log = log w1 @ [DatabasesCreate name region (image_tag canary),
                          InstancesCreate name (cr_Password res) region (image_tag canary),
                          AddDatabaseWrite (db_ID (cr_Database res))
                            \<lparr>ds_Name = db_Name (cr_Database res),
                             ds_Host = db_Hostname (cr_Database res),
                             ds_Username = cr_Username res,
                             ds_Password = cr_Password res\<rparr>,
                          InvalidateCacheWrite]\<rparr>)"
    for name region res
    using cfg
    by (simp add: create_provision_def emit_def AddDatabase_def InvalidateDbNamesCache_def)
  show ?thesis
    using f er ok a b c by simp
qed

theorem create_order_and_abort_witness:
  "createCmd (sample_env\<lparr>inst_create_resp := (\<lambda>n p r i. Some ''quota exceeded'')\<rparr>) [] False [''db1''] sample_world
     = (Error (InstanceCreateFailed ''db1'' ''quota exceeded''),
        \<lparr>config = config sample_world,
         log = [ProbeGet, GetRegionsCall, DatabasesCreate ''db1'' ''gru'' ''latest'',
                InstancesCreate ''db1'' ''p'' ''gru'' ''latest'']\<rparr>)
   \<and> createCmd (sample_env\<lparr>db_create_resp := (\<lambda>n r i. Inl ''name taken'')\<rparr>) [] False [''db1''] sample_world
     = (Error (CouldNotCreateDatabase ''db1'' ''name taken''),
        \<lparr>config = config sample_world,
         log = [ProbeGet, GetRegionsCall, DatabasesCreate ''db1'' ''gru'' ''latest'']\<rparr>)
   \<and> createCmd sample_env ''zzz'' False [''db1''] sample_world
     = (Error (RegionNotValid ''zzz''), sample_world\<lparr>log := [GetRegionsCall]\<rparr>)
   \<and> log (snd (createCmd sample_env [] False [''db1''] sample_world))
     = [ProbeGet, GetRegionsCall, DatabasesCreate ''db1'' ''gru'' ''latest'',
        InstancesCreate ''db1'' ''p'' ''gru'' ''latest'',
        AddDatabaseWrite ''id-new''
          \<lparr>ds_Name = ''db1'', ds_Host = ''new.turso.io'', ds_Username = ''u'', ds_Password = ''p''\<rparr>,
        InvalidateCacheWrite]"
proof -
  have p: "create_prepare (sample_env\<lparr>inst_create_resp := f, db_create_resp := g\<rparr>) [] [''db1''] sample_world
      = (Ok (''db1'', ''gru''), sample_world\<lparr>log := [ProbeGet, GetRegionsCall]\<rparr>)" for f g
    by (simp add: create_prepare_def create_name_def ReadSettings_def probeClosestRegion_def
        isValidRegion_def getRegionIds_def emit_def sample_env_def sample_world_def)
  have q: "create_prepare sample_env ''zzz'' [''db1''] sample_world
      = (Error (RegionNotValid ''zzz''), sample_world\<lparr>log := [GetRegionsCall]\<rparr>)"
    by (simp add: create_prepare_def create_name_def ReadSettings_def
        isValidRegion_def getRegionIds_def emit_def sample_env_def sample_world_def)
  note t1 = create_order_and_abort
    [OF p [where f = "\<lambda>n p r i. Some ''quota exceeded''" and g = "db_create_resp sample_env"],
     where canary = False]
  note t2 = create_order_and_abort
    [OF p [where f = "inst_create_resp sample_env" and g = "\<lambda>n r i. Inl ''name taken''"],
     where canary = False]
  note t3 = create_order_and_abort [OF q, where canary = False]
  note t4 = create_order_and_abort
    [OF p [where f = "inst_create_resp sample_env" and g = "db_create_resp sample_env"],
     where canary = False]
  show ?thesis
    using t1 t2 t3 t4 by (simp add: sample_env_def sample_world_def image_tag_def)
qed

lemma replicate_finish_not_invalid_region:
  "fst (replicate_finish e original req w) \<noteq> Error InvalidRegionId"
proof -
  have "response_settings original result \<noteq> Error er" for result er
    using response_settings_total [of original result] by auto
  then show ?thesis
    by (auto simp: replicate_finish_def
        split: sum.splits body_outcome.splits outcome.splits prod.splits)
qed

text \<open>
  C7. Region validation. With \<open>catalog\<close> the region ids the catalog yields (none when
  the fetch fails): an empty catalog accepts every region, and a region in the catalog
  validates. A requested (non-empty) region that validates is accepted by both
  commands: Create, once the settings are read and the name is there, goes on to
  provision the database in that very region; Replicate does not fail with its
  invalid-region error, and when its later steps succeed the request it builds
  carries that region. When the catalog is non-empty and lacks the region, validation
  fails, Create (the region given by its flag) and Replicate both fail, and they fail
  with their invalid-region error whenever the steps before validation succeed: the
  settings are readable and the name is there.
\<close>

theorem region_validation:
  assumes "catalog = (case regions_resp e of Inl err \<Rightarrow> [] | Inr ids \<Rightarrow> ids)"
  shows "(catalog = [] \<longrightarrow> fst (isValidRegion e region w))
       \<and> (region \<in> set catalog \<longrightarrow> fst (isValidRegion e region w))
       \<and> ((catalog = [] \<or> region \<in> set catalog) \<and> region \<noteq> [] \<and> read_settings_err e = None \<longrightarrow>
            (create_name e args = Inr name \<longrightarrow>
               create_prepare e region args w = (Ok (name, region), emit GetRegionsCall w)
             \<and> createCmd e region canary args w =
                 create_provision e canary name region (emit GetRegionsCall w))
          \<and> (name \<noteq> [] \<longrightarrow>
               fst (replicateCmd e canary name region w) \<noteq> Error InvalidRegionId
             \<and> (\<forall>dbs original dbSettings.
                   token (config w) \<noteq> [] \<and> list_resp e = Inr dbs
                 \<and> find_database name dbs = Some original
                 \<and> databases (config w) (db_ID original) = Some dbSettings
                 \<and> new_request_err e (replicate_url (getHost e) name original) = None \<longrightarrow>
                   replicate_prepare e canary name region w =
                     (Ok (original,
                          \<lparr>req_url = replicate_url (getHost e) name original,
                           req_body = createDbReq name region (image_tag canary)
                                        (ds_Password dbSettings),
                           req_authorization = ''Bearer '' @ token (config w)\<rparr>),
                      emit DatabasesList (emit GetRegionsCall w)))))
       \<and> (catalog \<noteq> [] \<and> region \<notin> set catalog \<longrightarrow>
            \<not> fst (isValidRegion e region w)
          \<and> (region \<noteq> [] \<longrightarrow>
               (\<exists>er. fst (createCmd e region canary args w) = Error er)
             \<and> (\<exists>er. fst (replicateCmd e canary name region w) = Error er)
             \<and> (read_settings_err e = None \<and> create_name e args = Inr name \<longrightarrow>
                  fst (createCmd e region canary args w) = Error (RegionNotValid region))
             \<and> (read_settings_err e = None \<and> name \<noteq> [] \<longrightarrow>
                  fst (replicateCmd e canary name region w) = Error InvalidRegionId)))"
proof -
  have v: "fst (isValidRegion e region w) = (catalog = [] \<or> region \<in> set catalog)"
    using assms by (simp add: isValidRegion_fst split: sum.splits)
  obtain b w1 where iv: "isValidRegion e region w = (b, w1)"
    by force
  have b: "b = (catalog = [] \<or> region \<in> set catalog)"
    using v iv by simp
  have w1: "w1 = emit GetRegionsCall w"
    using iv by (rule isValidRegion_world)
  have c: "catalog \<noteq> [] \<Longrightarrow> region \<notin> set catalog \<Longrightarrow> region \<noteq> [] \<Longrightarrow>
      fst (createCmd e region canary args w) =
        (case read_settings_err e of
           Some err \<Rightarrow> Error (SettingsUnreadable err)
         | None \<Rightarrow> (case create_name e args of
                      Inl err \<Rightarrow> Error (CodenameFailed err)
                    | Inr n \<Rightarrow> Error (RegionNotValid region)))"
    using b by (simp add: createCmd_def create_prepare_def ReadSettings_def iv
        split: option.splits sum.splits)
  have r: "catalog \<noteq> [] \<Longrightarrow> region \<notin> set catalog \<Longrightarrow> region \<noteq> [] \<Longrightarrow>
      fst (replicateCmd e canary name region w) =
        (case read_settings_err e of
           Some err \<Rightarrow> Error (SettingsUnreadable err)
         | None \<Rightarrow> if name = [] then Error MissingDatabaseName else Error InvalidRegionId)"
    using b by (simp add: replicateCmd_def replicate_prepare_def ReadSettings_def iv
        split: option.splits sum.splits)
  have reject: "catalog \<noteq> [] \<and> region \<notin> set catalog \<longrightarrow>
            \<not> fst (isValidRegion e region w)
          \<and> (region \<noteq> [] \<longrightarrow>
               (\<exists>er. fst (createCmd e region canary args w) = Error er)
             \<and> (\<exists>er. fst (replicateCmd e canary name region w) = Error er)
             \<and> (read_settings_err e = None \<and> create_name e args = Inr name \<longrightarrow>
                  fst (createCmd e region canary args w) = Error (RegionNotValid region))
             \<and> (read_settings_err e = None \<and> name \<noteq> [] \<longrightarrow>
                  fst (replicateCmd e canary name region w) = Error InvalidRegionId))"
    using v c r by (auto split: option.splits sum.splits)
  have cp: "create_prepare e region args w = (Ok (name, region), emit GetRegionsCall w)"
    if "catalog = [] \<or> region \<in> set catalog" "region \<noteq> []" "read_settings_err e = None"
      "create_name e args = Inr name"
    using that w1 b by (simp add: create_prepare_def ReadSettings_def iv)
  have cc: "createCmd e region canary args w =
      create_provision e canary name region (emit GetRegionsCall w)"
    if "catalog = [] \<or> region \<in> set catalog" "region \<noteq> []" "read_settings_err e = None"
      "create_name e args = Inr name"
    using cp [OF that] by (simp add: createCmd_def)
  have rn: "fst (replicateCmd e canary name region w) \<noteq> Error InvalidRegionId"
    if "catalog = [] \<or> region \<in> set catalog" "region \<noteq> []" "read_settings_err e = None"
      "name \<noteq> []"
  proof -
    obtain res w2 where p: "replicate_prepare e canary name region w = (res, w2)"
      by force
    have "res \<noteq> Error InvalidRegionId"
      using p that b
      by (auto simp: replicate_prepare_def ReadSettings_def iv
          split: sum.splits option.splits prod.splits if_splits)
    then show ?thesis
      using p replicate_finish_not_invalid_region
      by (cases res) (auto simp: replicateCmd_def)
  qed
  have rp: "replicate_prepare e canary name region w =
      (Ok (original,
           \<lparr>req_url = replicate_url (getHost e) name original,
            req_body = createDbReq name region (image_tag canary) (ds_Password dbSettings),
            req_authorization = ''Bearer '' @ token (config w)\<rparr>),
       emit DatabasesList (emit GetRegionsCall w))"
    if "catalog = [] \<or> region \<in> set catalog" "region \<noteq> []" "read_settings_err e = None"
      "name \<noteq> []" "token (config w) \<noteq> []" "list_resp e = Inr dbs" "find_database name dbs = Some original"
      "databases (config w) (db_ID original) = Some dbSettings"
      "new_request_err e (replicate_url (getHost e) name original) = None"
    for dbs original dbSettings
    using that w1 b
    by (simp add: replicate_prepare_def ReadSettings_def getAccessToken_def GetToken_def
        getDatabase_def getDatabases_def GetDatabaseSettings_def emit_def iv)
  have accept: "(catalog = [] \<or> region \<in> set catalog) \<and> region \<noteq> [] \<and> read_settings_err e = None \<longrightarrow>
            (create_name e args = Inr name \<longrightarrow>
               create_prepare e region args w = (Ok (name, region), emit GetRegionsCall w)
             \<and> createCmd e region canary args w =
                 create_provision e canary name region (emit GetRegionsCall w))
          \<and> (name \<noteq> [] \<longrightarrow>
               fst (replicateCmd e canary name region w) \<noteq> Error InvalidRegionId
             \<and> (\<forall>dbs original dbSettings.
                   token (config w) \<noteq> [] \<and> list_resp e = Inr dbs
                 \<and> find_database name dbs = Some original
                 \<and> databases (config w) (db_ID original) = Some dbSettings
                 \<and> new_request_err e (replicate_url (getHost e) name original) = None \<longrightarrow>
                   replicate_prepare e canary name region w =
                     (Ok (original,
                          \<lparr>req_url = replicate_url (getHost e) name original,
                           req_body = createDbReq name region (image_tag canary)
                                        (ds_Password dbSettings),
                           req_authorization = ''Bearer '' @ token (config w)\<rparr>),
                      emit DatabasesList (emit GetRegionsCall w))))"
    by (intro impI conjI allI; elim conjE; (rule cp | rule cc | rule rn | rule rp); assumption)
  have valid: "(catalog = [] \<longrightarrow> fst (isValidRegion e region w))
       \<and> (region \<in> set catalog \<longrightarrow> fst (isValidRegion e region w))"
    using v by simp
  show ?thesis
    using valid accept reject by blast
qed

theorem region_validation_witness:
  "fst (isValidRegion (sample_env\<lparr>regions_resp := Inl ''unreachable''\<rparr>) ''zzz'' sample_world)
   \<and> fst (isValidRegion sample_env ''fra'' sample_world)
   \<and> \<not> fst (isValidRegion sample_env ''zzz'' sample_world)
   \<and> fst (createCmd sample_env ''zzz'' False [''db1''] sample_world) = Error (RegionNotValid ''zzz'')
   \<and> fst (replicateCmd sample_env False ''app1'' ''zzz'' sample_world) = Error InvalidRegionId
   \<and> createCmd sample_env ''fra'' False [''db1''] sample_world =
       create_provision sample_env False ''db1'' ''fra'' (sample_world\<lparr>log := [GetRegionsCall]\<rparr>)
   \<and> createCmd (sample_env\<lparr>regions_resp := Inl ''unreachable''\<rparr>) ''zzz'' False [''db1''] sample_world =
       create_provision (sample_env\<lparr>regions_resp := Inl ''unreachable''\<rparr>) False ''db1'' ''zzz''
         (sample_world\<lparr>log := [GetRegionsCall]\<rparr>)
   \<and> replicate_prepare sample_env False ''app1'' ''fra'' sample_world =
       (Ok (hd sample_databases, sample_request), sample_world\<lparr>log := [GetRegionsCall, DatabasesList]\<rparr>)
   \<and> fst (replicateCmd sample_env False ''app1'' ''fra'' sample_world) \<noteq> Error InvalidRegionId"
proof -
  let ?down = "sample_env\<lparr>regions_resp := Inl ''unreachable''\<rparr>"
  have c1: "[] = (case regions_resp ?down of Inl err \<Rightarrow> [] | Inr ids \<Rightarrow> ids)"
    by simp
  have c2: "[''ams'', ''fra'', ''gru''] = (case regions_resp sample_env of Inl err \<Rightarrow> [] | Inr ids \<Rightarrow> ids)"
    by (simp add: sample_env_def)
  note t1 = region_validation [OF c1, of "''zzz''" sample_world "[''db1'']" "''db1''" False]
  note t2 = region_validation [OF c2, of "''fra''" sample_world "[''db1'']" "''db1''" False]
  note t3 = region_validation [OF c2, of "''zzz''" sample_world "[''db1'']" "''db1''" False]
  note t4 = region_validation [OF c2, of "''zzz''" sample_world "[''db1'']" "''app1''" False]
  note t5 = region_validation [OF c2, of "''fra''" sample_world "[''db1'']" "''app1''" False]
  have n: "read_settings_err sample_env = None" "create_name sample_env [''db1''] = Inr ''db1''"
    "read_settings_err ?down = None" "create_name ?down [''db1''] = Inr ''db1''"
    by (simp_all add: sample_env_def create_name_def)
  have s: "token (config sample_world) = ''tok''" "list_resp sample_env = Inr sample_databases"
    "find_database ''app1'' sample_databases = Some (hd sample_databases)"
    "databases (config sample_world) (db_ID (hd sample_databases)) =
       Some \<lparr>ds_Name = ''app1'', ds_Host = ''app1.turso.io'', ds_Username = ''u0'', ds_Password = ''secret''\<rparr>"
    "new_request_err sample_env u = None"
    "replicate_url (getHost sample_env) ''app1'' (hd sample_databases) = req_url sample_request"
    for u
    by (simp_all add: sample_defs sample_request_def replicate_url_def getHost_def)
  have e: "emit ev sample_world = sample_world\<lparr>log := [ev]\<rparr>"
    "emit ev' (sample_world\<lparr>log := [ev]\<rparr>) = sample_world\<lparr>log := [ev, ev']\<rparr>" for ev ev'
    by (simp_all add: emit_def sample_world_def)
  have v1: "fst (isValidRegion ?down ''zzz'' sample_world)"
    using t1 by simp
  have v2: "fst (isValidRegion sample_env ''fra'' sample_world)"
    using t2 by simp
  have v3: "\<not> fst (isValidRegion sample_env ''zzz'' sample_world)"
    using t3 by simp
  have r1: "fst (createCmd sample_env ''zzz'' False [''db1''] sample_world) = Error (RegionNotValid ''zzz'')"
    using t3 n by simp
  have r2: "fst (replicateCmd sample_env False ''app1'' ''zzz'' sample_world) = Error InvalidRegionId"
    using t4 n by simp
  have a1: "createCmd sample_env ''fra'' False [''db1''] sample_world =
       create_provision sample_env False ''db1'' ''fra'' (sample_world\<lparr>log := [GetRegionsCall]\<rparr>)"
    using t2 n by (simp add: e)
  have a2: "createCmd ?down ''zzz'' False [''db1''] sample_world =
       create_provision ?down False ''db1'' ''zzz'' (sample_world\<lparr>log := [GetRegionsCall]\<rparr>)"
    using t1 n by (simp add: e)
  have a3: "replicate_prepare sample_env False ''app1'' ''fra'' sample_world =
       (Ok (hd sample_databases, sample_request), sample_world\<lparr>log := [GetRegionsCall, DatabasesList]\<rparr>)"
    using t5 n s by (simp add: e sample_request_def image_tag_def)
  have a4: "fst (replicateCmd sample_env False ''app1'' ''fra'' sample_world) \<noteq> Error InvalidRegionId"
    using t5 n by simp
  show ?thesis
    using v1 v2 v3 r1 r2 a1 a2 a3 a4 by (intro conjI)
qed

section \<open>Region probe\<close>

lemma probe_result_on_failure:
  "(probe_resp e = GetFailed err \<or> probe_resp e = DecodeFailed err \<or>
    (probe_resp e = Decoded server \<and> \<not> fst (isValidRegion e server (emit ProbeGet w))))
   \<Longrightarrow> fst (probeClosestRegion e w) = ''ams''"
  by (auto simp: probeClosestRegion_def FallbackRegionId_def split: prod.splits)

text \<open>
  C4. Region-probe fallback. In all three failures the result is \<open>ams\<close> and nothing
  fails, but the warning is printed for one of them only: when the body does not
  decode, and when the probed region is not in the catalog, probeClosestRegion
  returns \<open>ams\<close> and prints nothing; when the GET itself fails it prints
  FallbackWarning.
\<close>

theorem probe_fallback_without_warning:
  "probeClosestRegion (sample_env\<lparr>probe_resp := DecodeFailed ''unexpected end of JSON input''\<rparr>) sample_world
     = (''ams'', sample_world\<lparr>log := [ProbeGet]\<rparr>)
   \<and> probeClosestRegion (sample_env\<lparr>probe_resp := Decoded ''zzz''\<rparr>) sample_world
     = (''ams'', sample_world\<lparr>log := [ProbeGet, GetRegionsCall]\<rparr>)
   \<and> probeClosestRegion (sample_env\<lparr>probe_resp := GetFailed ''no route to host''\<rparr>) sample_world
     = (''ams'', sample_world\<lparr>log := [ProbeGet, Printed FallbackWarning]\<rparr>)"
  by (simp add: probeClosestRegion_def isValidRegion_def getRegionIds_def emit_def
      FallbackRegionId_def sample_defs)

section \<open>Name cache\<close>

lemma extractDatabaseNames_filter:
  "extractDatabaseNames dbs = map db_Name (filter (\<lambda>d. db_Type d = ''primary'') dbs)"
  by (induction dbs) auto

text \<open>What each path leaves in the cache: a successful listing stores the primary names
  of that listing, and a successful Create or Replicate clears the cache.\<close>

lemma getDatabaseNames_cache:
  "db_names_cache (config (snd (getDatabaseNames e w))) =
     (if read_settings_err e = None \<and> db_names_cache (config w) = None
      then (case list_resp e of Inl err \<Rightarrow> Some [] | Inr dbs \<Rightarrow> Some (extractDatabaseNames dbs))
      else db_names_cache (config w))"
  by (auto simp: getDatabaseNames_def fetchDatabaseNames_def getDatabases_def
      ReadSettings_def GetDbNamesCache_def SetDbNamesCache_def emit_def
      split: option.splits sum.splits)

lemma listCmd_caches_listing:
  assumes "listCmd e w = (Ok (), w')"
  shows "\<exists>dbs. list_resp e = Inr dbs \<and> db_names_cache (config w') = Some (extractDatabaseNames dbs)"
  using assms
  by (auto simp: listCmd_def ReadSettings_def getDatabases_def SetDbNamesCache_def emit_def
      split: option.splits sum.splits)

lemma successful_create_clears_cache:
  assumes "createCmd e region_flag canary args w = (Ok (), w')"
  shows "db_names_cache (config w') = None"
proof -
  obtain r w1 where p: "create_prepare e region_flag args w = (r, w1)"
    by force
  from assms p obtain name region where
    "create_provision e canary name region w1 = (Ok (), w')"
    by (auto simp: createCmd_def split: outcome.splits prod.splits)
  then show ?thesis
    by (auto simp: create_provision_def InvalidateDbNamesCache_def emit_def
        split: sum.splits option.splits)
qed

lemma successful_replicate_clears_cache:
  assumes "replicateCmd e canary name region w = (Ok (), w')"
  shows "db_names_cache (config w') = None"
proof -
  obtain r w2 where p: "replicate_prepare e canary name region w = (r, w2)"
    by force
  from assms p obtain original req where
    "replicate_finish e original req w2 = (Ok (), w')"
    by (auto simp: replicateCmd_def split: outcome.splits prod.splits)
  from replicate_finish_Ok [OF this] show ?thesis
    by (auto simp: InvalidateDbNamesCache_def emit_def)
qed

text \<open>
  C2. NameCache invariant. On a cache miss with a failing listing, getDatabaseNames
  stores the empty list in the cache: a value that is not the set of primary names of
  any successful listing. listCmd, on the same failure, leaves the cache alone.
\<close>

theorem failed_listing_is_cached:
  "getDatabaseNames (sample_env\<lparr>list_resp := Inl ''connection refused''\<rparr>) sample_world
     = ([], \<lparr>config = \<lparr>token = ''tok'', databases = sample_settings, db_names_cache = Some []\<rparr>,
             log = [DatabasesList, SetCacheWrite []]\<rparr>)
   \<and> listCmd (sample_env\<lparr>list_resp := Inl ''connection refused''\<rparr>) sample_world
     = (Error (RemoteFailed ''connection refused''), sample_world\<lparr>log := [DatabasesList]\<rparr>)"
  by (simp add: getDatabaseNames_def fetchDatabaseNames_def getDatabases_def listCmd_def
      ReadSettings_def GetDbNamesCache_def SetDbNamesCache_def emit_def sample_env_def sample_world_def)

section \<open>Destruction\<close>

text \<open>
  C8. Destruction frame condition. In each of its modes destroyCmd leaves the settings
  store (the name cache and the database settings) as it was, its outcome and its
  calls do not depend on the store, and an error of the remote call is the error of
  the command.
\<close>

theorem destroy_frame:
  "config (snd (destroyCmd e instanceFlag regionFlag yesFlag name w)) = config w
   \<and> fst (destroyCmd e instanceFlag regionFlag yesFlag name (w\<lparr>config := c\<rparr>))
       = fst (destroyCmd e instanceFlag regionFlag yesFlag name w)
   \<and> log (snd (destroyCmd e instanceFlag regionFlag yesFlag name (w\<lparr>config := c\<rparr>)))
       = log (snd (destroyCmd e instanceFlag regionFlag yesFlag name w))
   \<and> (instanceFlag \<noteq> [] \<and> destroy_instance_resp e name instanceFlag = Some err \<longrightarrow>
        fst (destroyCmd e instanceFlag regionFlag yesFlag name w) = Error (RemoteFailed err))
   \<and> (instanceFlag = [] \<and> regionFlag \<noteq> [] \<and> destroy_region_resp e name regionFlag = Some err \<longrightarrow>
        fst (destroyCmd e instanceFlag regionFlag yesFlag name w) = Error (RemoteFailed err))
   \<and> (instanceFlag = [] \<and> regionFlag = [] \<and> (yesFlag \<or> prompt_resp e = Inr True)
        \<and> destroy_db_resp e name = Some err \<longrightarrow>
        fst (destroyCmd e instanceFlag regionFlag yesFlag name w) = Error (RemoteFailed err))"
  by (auto simp: destroyCmd_def destroyDatabase_def destroyDatabaseRegion_def
      destroyDatabaseInstance_def emit_def split: option.splits sum.splits)

theorem destroy_frame_witness:
  "fst (destroyCmd (sample_env\<lparr>destroy_instance_resp := (\<lambda>n i. Some ''gone'')\<rparr>) ''i-1'' [] False ''app1'' sample_world)
     = Error (RemoteFailed ''gone'')
   \<and> fst (destroyCmd (sample_env\<lparr>destroy_region_resp := (\<lambda>n r. Some ''gone'')\<rparr>) [] ''fra'' False ''app1'' sample_world)
     = Error (RemoteFailed ''gone'')
   \<and> fst (destroyCmd (sample_env\<lparr>destroy_db_resp := (\<lambda>n. Some ''gone'')\<rparr>) [] [] False ''app1'' sample_world)
     = Error (RemoteFailed ''gone'')
   \<and> config (snd (destroyCmd sample_env [] [] True ''app1'' sample_world)) = config sample_world"
  using destroy_frame [of "sample_env\<lparr>destroy_instance_resp := (\<lambda>n i. Some ''gone'')\<rparr>"
          "''i-1''" "[]" False "''app1''" sample_world "config sample_world" "''gone''"]
        destroy_frame [of "sample_env\<lparr>destroy_region_resp := (\<lambda>n r. Some ''gone'')\<rparr>"
          "[]" "''fra''" False "''app1''" sample_world "config sample_world" "''gone''"]
        destroy_frame [of "sample_env\<lparr>destroy_db_resp := (\<lambda>n. Some ''gone'')\<rparr>"
          "[]" "[]" False "''app1''" sample_world "config sample_world" "''gone''"]
        destroy_frame [of sample_env "[]" "[]" True "''app1''" sample_world "config sample_world" "''gone''"]
  by (simp add: sample_env_def)

section \<open>The request body\<close>

lemma utf8_valid_append: "utf8_valid a \<Longrightarrow> utf8_valid (a @ b) = utf8_valid b"
  by (simp add: utf8_valid_def)

lemma utf8_valid_ascii: "in_bytes 0x00 0x7F c \<Longrightarrow> utf8_valid (c # s) = utf8_valid s"
  by (simp add: utf8_valid_def)

lemma utf8_valid_Nil: "utf8_valid []"
  by (simp add: utf8_valid_def)

lemma in_string_plain:
  "plain_bytes s \<Longrightarrow> foldl json_step (InString ms k acc) s = InString ms k (acc @ s)"
proof (induction s arbitrary: acc)
  case Nil
  then show ?case by simp
next
  case (Cons c s)
  then show ?case
    by (simp add: plain_bytes_def)
qed

lemma plain_literals:
  "needs_no_escape ''canary''" "needs_no_escape ''latest''"
  by (simp_all add: needs_no_escape_def plain_bytes_def utf8_valid_def in_bytes_def)

lemma createDbReq_utf8:
  assumes "utf8_valid name" "utf8_valid region" "utf8_valid img" "utf8_valid password"
  shows "utf8_valid (createDbReq name region img password)"
  unfolding createDbReq_def
  using assms by (simp add: utf8_valid_append utf8_valid_ascii utf8_valid_Nil in_bytes_def)

lemma createDbReq_reads:
  assumes "needs_no_escape name" "needs_no_escape region" "needs_no_escape img"
    "needs_no_escape password"
  shows "json_members (createDbReq name region img password) =
           Some (request_object name region img password)"
proof -
  have "foldl json_step AtStart (createDbReq name region img password) =
          AtEnd (request_object name region img password)"
    unfolding createDbReq_def request_object_def
    using assms by (simp add: needs_no_escape_def in_string_plain is_ws_def)
  moreover have "utf8_valid (createDbReq name region img password)"
    using assms by (simp add: needs_no_escape_def createDbReq_utf8)
  ultimately show ?thesis
    by (simp add: json_members_def)
qed

text \<open>A double quote in the password can add a member; a byte that is no UTF-8, here
  in the region, makes the body no JSON text.\<close>

lemma injected_member:
  "json_members (createDbReq ''app1'' ''fra'' ''latest'' (''x'' @ [CHR 0x22] @ '', '' @ [CHR 0x22] @ ''admin'' @ [CHR 0x22] @ '': '' @ [CHR 0x22] @ ''1'')) =
     Some [(''name'', ''app1''), (''region'', ''fra''), (''image'', ''latest''),
           (''type'', ''replica''), (''password'', ''x''), (''admin'', ''1'')]"
  by (simp add: json_members_def createDbReq_def is_ws_def utf8_valid_def in_bytes_def)

lemma invalid_utf8_rejected:
  "\<not> needs_no_escape [CHR 0xFF]
   \<and> json_members (createDbReq ''app1'' [CHR 0xFF] ''latest'' ''secret'') = None"
  by (simp add: needs_no_escape_def json_members_def createDbReq_def utf8_valid_def in_bytes_def)

text \<open>
  C10, as the claim has it, fails: a password with a tab character is free of double
  quotes and backslashes, and the body built from it is not a JSON text.
\<close>

theorem request_body_control_character_counterexample:
  "free_of_quote_backslash ''app1'' \<and> free_of_quote_backslash ''fra''
   \<and> free_of_quote_backslash [CHR ''p'', CHR 0x09, CHR ''w'']
   \<and> json_members (createDbReq ''app1'' ''fra'' ''latest'' [CHR ''p'', CHR 0x09, CHR ''w'']) = None
   \<and> json_members (createDbReq ''app1'' ''fra'' ''latest'' [CHR ''p'', CHR 0x09, CHR ''w'']) \<noteq>
       Some (request_object ''app1'' ''fra'' ''latest'' [CHR ''p'', CHR 0x09, CHR ''w''])"
  by (simp add: free_of_quote_backslash_def json_members_def createDbReq_def is_ws_def
      utf8_valid_def in_bytes_def)

text \<open>
  C10, amended. The request body is the template with name, region, image and
  password put in as they are. For every input whose name, region and password are
  well-formed UTF-8 and hold no double quote, no backslash and no control character
  (a byte below 0x20), the body is the JSON object with exactly the members name,
  region, image, type and password; and for some password that holds a double quote
  or a backslash the body is not that object.
\<close>

theorem request_body_is_json_object:
  assumes "needs_no_escape name" and "needs_no_escape region" and "needs_no_escape password"
  shows "json_members (createDbReq name region (image_tag canary) password) =
           Some (request_object name region (image_tag canary) password)
       \<and> (\<exists>p. \<not> free_of_quote_backslash p
              \<and> json_members (createDbReq name region (image_tag canary) p) \<noteq>
                  Some (request_object name region (image_tag canary) p))"
proof -
  have i: "needs_no_escape (image_tag canary)"
    by (simp add: image_tag_def plain_literals)
  have a: "json_members (createDbReq name region (image_tag canary) password) =
           Some (request_object name region (image_tag canary) password)"
    by (rule createDbReq_reads [OF assms(1,2) i assms(3)])
  have "foldl json_step AtStart (createDbReq name region (image_tag canary) [CHR 0x22]) = Rejected"
    unfolding createDbReq_def
    using assms i by (simp add: needs_no_escape_def in_string_plain is_ws_def)
  then have b: "json_members (createDbReq name region (image_tag canary) [CHR 0x22]) = None"
    by (simp add: json_members_def)
  have "\<not> free_of_quote_backslash [CHR 0x22]"
    by (simp add: free_of_quote_backslash_def)
  then show ?thesis
    using a b by (metis option.distinct(1))
qed

theorem request_body_is_json_object_witness:
  "json_members (createDbReq ''app1'' ''fra'' ''latest'' ''secret'') =
     Some [(''name'', ''app1''), (''region'', ''fra''), (''image'', ''latest''),
           (''type'', ''replica''), (''password'', ''secret'')]
   \<and> json_members (createDbReq ''app1'' ''fra'' ''canary'' [CHR ''p'', CHR 0xC3, CHR 0xA9]) =
     Some [(''name'', ''app1''), (''region'', ''fra''), (''image'', ''canary''),
           (''type'', ''replica''), (''password'', [CHR ''p'', CHR 0xC3, CHR 0xA9])]"
proof -
  have h: "needs_no_escape ''app1''" "needs_no_escape ''fra''" "needs_no_escape ''secret''"
    "needs_no_escape [CHR ''p'', CHR 0xC3, CHR 0xA9]"
    by (simp_all add: needs_no_escape_def plain_bytes_def utf8_valid_def in_bytes_def)
  show ?thesis
    using request_body_is_json_object [OF h(1,2,3), of False]
      request_body_is_json_object [OF h(1,2,4), of True]
    by (simp add: image_tag_def request_object_def)
qed

end
